theory Spec2Isabelle
  imports Complex_Main
begin

section \<open>Python values shared by the server and the client\<close>

text \<open>
  Message packages and parsed frames are Python \<open>Dict[str, Any]\<close> values. They are
  modelled as JSON trees; a dictionary is an association list in insertion order.
  Numbers are integers here (the time stamps the code reads from the clock are passed
  in as ready-made values).
\<close>

datatype json =
    JNull
  | JBool bool
  | JNum int
  | JStr string
  | JArr "json list"
  | JObj "(string \<times> json) list"

text \<open>Python truthiness, as used by \<open>if msg_id\<close>.\<close>

fun truthy :: "json \<Rightarrow> bool" where
  "truthy JNull = False"
| "truthy (JBool b) = b"
| "truthy (JNum n) = (n \<noteq> 0)"
| "truthy (JStr s) = (s \<noteq> [])"
| "truthy (JArr xs) = (xs \<noteq> [])"
| "truthy (JObj kvs) = (kvs \<noteq> [])"

text \<open>\<open>d.get(k)\<close> on a dictionary: \<open>None\<close> of Python is \<open>JNull\<close>.\<close>

definition dict_get :: "(string \<times> json) list \<Rightarrow> string \<Rightarrow> json" where
  "dict_get d k = (case map_of d k of None \<Rightarrow> JNull | Some v \<Rightarrow> v)"

text \<open>
  An \<open>Optional[str]\<close> argument tested by \<open>if x:\<close> counts as given only when it is
  neither \<open>None\<close> nor the empty string.
\<close>

definition given :: "string option \<Rightarrow> string option" where
  "given x = (case x of None \<Rightarrow> None | Some s \<Rightarrow> if s = [] then None else Some s)"

definition opt_json :: "string option \<Rightarrow> json" where
  "opt_json x = (case x of None \<Rightarrow> JNull | Some s \<Rightarrow> JStr s)"

datatype py_error = TypeError

section \<open>Server business layer: \<open>server_ws_api.py\<close>\<close>

subsection \<open>Data\<close>

text \<open>
  Modelled from the spec: the handshake metadata object carried by a server-side event
  (class in \<open>server_ws_connection.py\<close>, which is not among the sources). The spec names
  the identity triple \<open>x-uuid\<close>, \<open>x-apikey\<close>, \<open>x-platform\<close>; the handlers read the
  attributes \<open>uuid\<close>, \<open>api_key\<close> and \<open>platform\<close>.
\<close>

record ConnectionMetadata =
  md_uuid :: string
  md_api_key :: string
  md_platform :: string

type_synonym pydict = "string \<rightharpoonup> string"

text \<open>
  Modelled from the spec: \<open>ConnectionMetadata.to_dict\<close>, the dictionary handed to the
  callbacks and stored in \<open>connection_metadata\<close>. The handlers read its keys
  \<open>api_key\<close> and \<open>platform\<close>.
\<close>

definition to_dict :: "ConnectionMetadata \<Rightarrow> pydict" where
  "to_dict m = [''uuid'' \<mapsto> md_uuid m, ''api_key'' \<mapsto> md_api_key m,
                ''platform'' \<mapsto> md_platform m]"

datatype EventType = CONNECT | DISCONNECT | MESSAGE

text \<open>
  Modelled from the spec: the server-side \<open>NetworkEvent\<close> (also in
  \<open>server_ws_connection.py\<close>): an event type, the connection's metadata and, for a
  message, the parsed payload.
\<close>

record ServerEvent =
  event_type :: EventType
  metadata :: ConnectionMetadata
  payload :: json

text \<open>
  The callbacks of \<open>ServerConfig\<close> that the registry depends on. A callback that raises
  returns \<open>None\<close>. \<open>on_connect\<close>, \<open>on_disconnect\<close> and \<open>on_message\<close> are awaited
  inside \<open>try/except Exception\<close> and their result is dropped, so they do not appear.
\<close>

record ServerConfig =
  on_auth :: "pydict \<Rightarrow> bool option"
  on_auth_extract_user :: "pydict \<Rightarrow> string option"

record AuthResult =
  success :: bool
  user_id :: "string option"
  error_message :: "string option"

record server_stats =
  total_auth_requests :: nat
  successful_auths :: nat
  failed_auths :: nat
  messages_processed :: nat
  custom_messages_processed :: nat
  current_users :: nat
  current_connections :: nat

text \<open>
  \<open>user_connections\<close> is annotated \<open>Dict[str, Set[str]]\<close> in \<open>__init__\<close>, but the connect
  handler stores a dictionary from platform to a set of UUIDs under each user; the
  model has the shape that is stored. \<open>rejected\<close> records the calls of
  \<open>network_driver.disconnect_client\<close>.
\<close>

record WebSocketServer =
  user_connections :: "string \<rightharpoonup> (string \<rightharpoonup> string set)"
  platform_connections :: "string \<rightharpoonup> string set"
  connection_users :: "string \<rightharpoonup> string"
  connection_metadata :: "string \<rightharpoonup> pydict"
  running :: bool
  stats :: server_stats
  rejected :: "string list"

definition server_init :: WebSocketServer where
  "server_init =
     \<lparr> user_connections = Map.empty, platform_connections = Map.empty,
       connection_users = Map.empty, connection_metadata = Map.empty,
       running = False,
       stats = \<lparr> total_auth_requests = 0, successful_auths = 0, failed_auths = 0,
                 messages_processed = 0, custom_messages_processed = 0,
                 current_users = 0, current_connections = 0 \<rparr>,
       rejected = [] \<rparr>"

subsection \<open>Authentication and the connect handler\<close>

definition authenticate_connection ::
  "ServerConfig \<Rightarrow> pydict \<Rightarrow> WebSocketServer \<Rightarrow> AuthResult \<times> WebSocketServer" where
  "authenticate_connection cfg md s =
     (let s1 = s\<lparr>stats := (stats s)\<lparr>total_auth_requests := total_auth_requests (stats s) + 1\<rparr>\<rparr>;
          failed = (\<lambda>msg. (\<lparr>success = False, user_id = None, error_message = Some msg\<rparr>,
                     s1\<lparr>stats := (stats s1)\<lparr>failed_auths := failed_auths (stats s1) + 1\<rparr>\<rparr>))
      in case on_auth cfg md of
           None \<Rightarrow> failed ''exception''
         | Some auth_success \<Rightarrow>
             if \<not> auth_success then failed ''auth failed''
             else (case on_auth_extract_user cfg md of
                     None \<Rightarrow> failed ''exception''
                   | Some u \<Rightarrow>
                       if u = [] then failed ''no user id''
                       else (\<lparr>success = True, user_id = Some u, error_message = None\<rparr>,
                             s1\<lparr>stats := (stats s1)\<lparr>successful_auths :=
                                   successful_auths (stats s1) + 1\<rparr>\<rparr>)))"

text \<open>The three statements that enter a UUID under \<open>user_connections[user_id][platform]\<close>.\<close>

definition add_user_connection ::
  "(string \<rightharpoonup> (string \<rightharpoonup> string set)) \<Rightarrow> string \<Rightarrow> string \<Rightarrow> string
     \<Rightarrow> (string \<rightharpoonup> (string \<rightharpoonup> string set))" where
  "add_user_connection uc u p c =
     (let m = (case uc u of None \<Rightarrow> Map.empty | Some m \<Rightarrow> m);
          S = (case m p of None \<Rightarrow> {} | Some S \<Rightarrow> S)
      in uc(u \<mapsto> m(p \<mapsto> insert c S)))"

definition add_platform_connection ::
  "(string \<rightharpoonup> string set) \<Rightarrow> string \<Rightarrow> string \<Rightarrow> (string \<rightharpoonup> string set)" where
  "add_platform_connection pc p c =
     pc(p \<mapsto> insert c (case pc p of None \<Rightarrow> {} | Some S \<Rightarrow> S))"

definition update_counts :: "WebSocketServer \<Rightarrow> WebSocketServer" where
  "update_counts s =
     s\<lparr>stats := (stats s)\<lparr>current_users := card (dom (user_connections s)),
                          current_connections := card (dom (connection_users s))\<rparr>\<rparr>"

definition handle_connect_event ::
  "ServerConfig \<Rightarrow> ServerEvent \<Rightarrow> WebSocketServer \<Rightarrow> WebSocketServer" where
  "handle_connect_event cfg event s =
     (let md = to_dict (metadata event);
          connection_uuid = md_uuid (metadata event);
          platform = md_platform (metadata event);
          (auth_result, s1) = authenticate_connection cfg md s
      in if \<not> success auth_result then s1\<lparr>rejected := rejected s1 @ [connection_uuid]\<rparr>
         else (case user_id auth_result of
                 None \<Rightarrow> s1
               | Some u \<Rightarrow>
                   update_counts
                     (s1\<lparr>user_connections :=
                            add_user_connection (user_connections s1) u platform connection_uuid,
                          platform_connections :=
                            add_platform_connection (platform_connections s1) platform connection_uuid,
                          connection_users := (connection_users s1)(connection_uuid \<mapsto> u),
                          connection_metadata := (connection_metadata s1)(connection_uuid \<mapsto> md)\<rparr>)))"

subsection \<open>The disconnect handler\<close>

text \<open>\<open>S.discard(c)\<close> followed by deleting the entry when the set has become empty.\<close>

definition discard_prune :: "('k \<rightharpoonup> string set) \<Rightarrow> 'k \<Rightarrow> string \<Rightarrow> ('k \<rightharpoonup> string set)" where
  "discard_prune m k c =
     (case m k of
        None \<Rightarrow> m
      | Some S \<Rightarrow> if S - {c} = {} then m(k := None) else m(k \<mapsto> S - {c}))"

definition remove_user_connection ::
  "(string \<rightharpoonup> (string \<rightharpoonup> string set)) \<Rightarrow> string \<Rightarrow> string \<Rightarrow> string
     \<Rightarrow> (string \<rightharpoonup> (string \<rightharpoonup> string set))" where
  "remove_user_connection uc u p c =
     (case uc u of
        None \<Rightarrow> uc
      | Some m \<Rightarrow>
          (let m' = discard_prune m p c
           in if dom m' = {} then uc(u := None) else uc(u \<mapsto> m')))"

definition handle_disconnect_event :: "ServerEvent \<Rightarrow> WebSocketServer \<Rightarrow> WebSocketServer" where
  "handle_disconnect_event event s =
     (let connection_uuid = md_uuid (metadata event)
      in case given (connection_users s connection_uuid) of
           None \<Rightarrow> s
         | Some u \<Rightarrow>
             (let md = (case connection_metadata s connection_uuid of
                          None \<Rightarrow> Map.empty | Some d \<Rightarrow> d);
                  platform = (case md ''platform'' of
                                None \<Rightarrow> md_platform (metadata event) | Some p \<Rightarrow> p)
              in update_counts
                   (s\<lparr>user_connections :=
                         remove_user_connection (user_connections s) u platform connection_uuid,
                       platform_connections :=
                         discard_prune (platform_connections s)
                           (md_platform (metadata event)) connection_uuid,
                       connection_users := (connection_users s)(connection_uuid := None),
                       connection_metadata := (connection_metadata s)(connection_uuid := None)\<rparr>)))"

subsection \<open>Dispatcher, start and stop\<close>

text \<open>
  A message event touches only the counters of the registry state; its handlers are
  callbacks whose exceptions are caught. \<open>messages_processed\<close> is counted first; a
  payload that is not a dictionary, or a \<open>type\<close> that is not a string, raises inside
  the handler's \<open>try\<close> and is logged. A type that starts with \<open>custom_\<close> is also
  counted in \<open>custom_messages_processed\<close>.
\<close>

definition get_message_type :: "json \<Rightarrow> string option" where
  "get_message_type message_data =
     (case message_data of
        JObj kvs \<Rightarrow>
          (case map_of kvs ''type'' of
             None \<Rightarrow> Some ''unknown''
           | Some (JStr t) \<Rightarrow> Some t
           | Some _ \<Rightarrow> None)
      | _ \<Rightarrow> None)"

definition startswith :: "string \<Rightarrow> string \<Rightarrow> bool" where
  "startswith s pre = (take (length pre) s = pre)"

definition handle_message_event :: "ServerEvent \<Rightarrow> WebSocketServer \<Rightarrow> WebSocketServer" where
  "handle_message_event event s =
     (let s1 = s\<lparr>stats := (stats s)\<lparr>messages_processed := messages_processed (stats s) + 1\<rparr>\<rparr>
      in case get_message_type (payload event) of
           None \<Rightarrow> s1
         | Some t \<Rightarrow>
             if t = ''sys_std'' then s1
             else if startswith t ''custom_''
             then s1\<lparr>stats := (stats s1)\<lparr>custom_messages_processed :=
                                            custom_messages_processed (stats s1) + 1\<rparr>\<rparr>
             else s1)"

definition dispatch :: "ServerConfig \<Rightarrow> ServerEvent \<Rightarrow> WebSocketServer \<Rightarrow> WebSocketServer" where
  "dispatch cfg event s =
     (case event_type event of
        CONNECT \<Rightarrow> handle_connect_event cfg event s
      | DISCONNECT \<Rightarrow> handle_disconnect_event event s
      | MESSAGE \<Rightarrow> handle_message_event event s)"

text \<open>The dispatcher loop takes the queued events one at a time, in queue order.\<close>

fun dispatcher_loop :: "ServerConfig \<Rightarrow> ServerEvent list \<Rightarrow> WebSocketServer \<Rightarrow> WebSocketServer" where
  "dispatcher_loop cfg [] s = s"
| "dispatcher_loop cfg (e # es) s = dispatcher_loop cfg es (dispatch cfg e s)"

definition start :: "WebSocketServer \<Rightarrow> WebSocketServer" where
  "start s = (if running s then s else s\<lparr>running := True\<rparr>)"

definition stop :: "WebSocketServer \<Rightarrow> WebSocketServer" where
  "stop s =
     (if \<not> running s then s
      else s\<lparr>running := False, user_connections := Map.empty,
             platform_connections := Map.empty, connection_users := Map.empty\<rparr>)"

definition get_connection_count :: "WebSocketServer \<Rightarrow> nat" where
  "get_connection_count s = card (dom (connection_users s))"

subsection \<open>The registry invariant\<close>

text \<open>
  The connections filed under a key of \<open>platform_connections\<close>, and under a user and
  a platform of \<open>user_connections\<close>: the empty set when the entry is missing. The
  platform recorded for a connection is the \<open>platform\<close> key of its stored metadata.
\<close>

definition set_of :: "('k \<rightharpoonup> string set) \<Rightarrow> 'k \<Rightarrow> string set" where
  "set_of m k = (case m k of None \<Rightarrow> {} | Some S \<Rightarrow> S)"

definition conns_of :: "(string \<rightharpoonup> (string \<rightharpoonup> string set)) \<Rightarrow> string \<Rightarrow> string \<Rightarrow> string set" where
  "conns_of uc u p = (case uc u of None \<Rightarrow> {} | Some m \<Rightarrow> set_of m p)"

definition recorded_platform :: "WebSocketServer \<Rightarrow> string \<Rightarrow> string option" where
  "recorded_platform s c =
     (case connection_metadata s c of None \<Rightarrow> None | Some d \<Rightarrow> d ''platform'')"

text \<open>
  The registry invariant in the words of the specification: \<open>connection_users[c] == u\<close>
  if and only if \<open>u\<close> is a key of \<open>user_connections\<close> and \<open>c\<close> is in
  \<open>user_connections[u][p]\<close> for the platform \<open>p\<close> recorded in
  \<open>connection_metadata[c]\<close>; \<open>platform_connections[p]\<close> is the union over all users
  of their connections on \<open>p\<close>; and no platform entry, user entry or platform entry of
  a user is left empty.
\<close>

definition registry_invariant :: "WebSocketServer \<Rightarrow> bool" where
  "registry_invariant s \<longleftrightarrow>
     (\<forall>c u. connection_users s c = Some u \<longleftrightarrow>
        (\<exists>m p S. user_connections s u = Some m \<and> recorded_platform s c = Some p
                 \<and> m p = Some S \<and> c \<in> S))
   \<and> (\<forall>p. set_of (platform_connections s) p = (\<Union>u. conns_of (user_connections s) u p))
   \<and> (\<forall>p. platform_connections s p \<noteq> Some {})
   \<and> (\<forall>u m. user_connections s u = Some m \<longrightarrow> dom m \<noteq> {} \<and> (\<forall>p. m p \<noteq> Some {}))"




text \<open>The four registry maps of two states agree.\<close>

definition same_registry :: "WebSocketServer \<Rightarrow> WebSocketServer \<Rightarrow> bool" where
  "same_registry s' s \<longleftrightarrow>
     user_connections s' = user_connections s
   \<and> platform_connections s' = platform_connections s
   \<and> connection_users s' = connection_users s
   \<and> connection_metadata s' = connection_metadata s"

subsection \<open>Sending\<close>

text \<open>
  Modelled from the spec: the routing view of \<open>APIMessageBase\<close> (module \<open>message\<close> is not
  among the sources): the target API key and platform, and the dictionary form of the
  message, which is an opaque payload.
\<close>

record APIMessageBase =
  get_api_key :: string
  get_platform :: string
  message_dict :: json

text \<open>
  What a send returns and does: the set of connections the driver was asked to write to
  and the result dictionary. The driver's \<open>send_message\<close> (in the absent
  \<open>server_ws_connection.py\<close>) is the parameter \<open>send\<close>; the loop over a Python set visits
  every element once, in no particular order.
\<close>

record send_report =
  sent_to :: "string set"
  results :: "string \<rightharpoonup> bool"

definition send_to_all :: "(string \<Rightarrow> json \<Rightarrow> bool) \<Rightarrow> json \<Rightarrow> string set \<Rightarrow> send_report" where
  "send_to_all send package targets =
     \<lparr> sent_to = targets,
       results = (\<lambda>c. if c \<in> targets then Some (send c package) else None) \<rparr>"

definition no_send :: send_report where
  "no_send = \<lparr> sent_to = {}, results = Map.empty \<rparr>"

definition std_package :: "string \<Rightarrow> json \<Rightarrow> string \<Rightarrow> string \<Rightarrow> json \<Rightarrow> json" where
  "std_package millis now target_user platform body =
     JObj [(''ver'', JNum 1), (''msg_id'', JStr (''msg_'' @ millis)), (''type'', JStr ''sys_std''),
           (''meta'', JObj [(''sender_user'', JStr ''server''), (''target_user'', JStr target_user),
                            (''platform'', JStr platform), (''timestamp'', now)]),
           (''payload'', body)]"

definition send_message ::
  "ServerConfig \<Rightarrow> (string \<Rightarrow> json \<Rightarrow> bool) \<Rightarrow> string \<Rightarrow> json \<Rightarrow> WebSocketServer
     \<Rightarrow> APIMessageBase \<Rightarrow> send_report" where
  "send_message cfg send millis now s message =
     (let api_key = get_api_key message; platform = get_platform message
      in case on_auth_extract_user cfg [''api_key'' \<mapsto> api_key] of
           None \<Rightarrow> no_send
         | Some target_user \<Rightarrow>
             (case user_connections s target_user of
                None \<Rightarrow> no_send
              | Some user_platform_connections \<Rightarrow>
                  (case user_platform_connections platform of
                     None \<Rightarrow> no_send
                   | Some target_connections \<Rightarrow>
                       send_to_all send
                         (std_package millis now target_user platform (message_dict message))
                         target_connections)))"

text \<open>
  \<open>self.user_connections.get(target_user, set())\<close> yields either the stored dictionary
  (platform to set) or the default empty set; \<open>&\<close> is defined between two sets and
  raises \<open>TypeError\<close> for a dictionary operand; iterating a dictionary visits its keys.
\<close>

datatype pyval = PyDict "string \<rightharpoonup> string set" | PySet "string set"

fun py_and :: "pyval \<Rightarrow> pyval \<Rightarrow> py_error + pyval" where
  "py_and (PySet A) (PySet B) = Inr (PySet (A \<inter> B))"
| "py_and _ _ = Inl TypeError"

fun py_iter :: "pyval \<Rightarrow> string set" where
  "py_iter (PySet A) = A"
| "py_iter (PyDict m) = dom m"

definition custom_package :: "string \<Rightarrow> json \<Rightarrow> string \<Rightarrow> json \<Rightarrow> string option \<Rightarrow> string option \<Rightarrow> json" where
  "custom_package millis now message_type body target_user target_platform =
     JObj [(''ver'', JNum 1), (''msg_id'', JStr (''custom_'' @ millis)), (''type'', JStr message_type),
           (''meta'', JObj [(''sender_user'', JStr ''server''), (''target_user'', opt_json target_user),
                            (''platform'', opt_json target_platform), (''timestamp'', now)]),
           (''payload'', body)]"

definition custom_targets ::
  "WebSocketServer \<Rightarrow> string option \<Rightarrow> string option \<Rightarrow> string option \<Rightarrow> py_error + pyval" where
  "custom_targets s target_user target_platform connection_uuid =
     (case given connection_uuid of
        Some c \<Rightarrow> Inr (PySet {c})
      | None \<Rightarrow>
          (case given target_user of
             Some u \<Rightarrow>
               (let user_conns = (case user_connections s u of
                                    None \<Rightarrow> PySet {} | Some m \<Rightarrow> PyDict m)
                in case given target_platform of
                     Some p \<Rightarrow>
                       py_and user_conns
                         (PySet (case platform_connections s p of None \<Rightarrow> {} | Some S \<Rightarrow> S))
                   | None \<Rightarrow> Inr user_conns)
           | None \<Rightarrow> Inr (PySet {})))"

definition send_custom_message ::
  "(string \<Rightarrow> json \<Rightarrow> bool) \<Rightarrow> string \<Rightarrow> json \<Rightarrow> WebSocketServer \<Rightarrow> string \<Rightarrow> json
     \<Rightarrow> string option \<Rightarrow> string option \<Rightarrow> string option \<Rightarrow> py_error + send_report" where
  "send_custom_message send millis now s message_type body target_user target_platform connection_uuid =
     (case custom_targets s target_user target_platform connection_uuid of
        Inl e \<Rightarrow> Inl e
      | Inr v \<Rightarrow>
          Inr (send_to_all send
                 (custom_package millis now message_type body target_user target_platform)
                 (py_iter v)))"

section \<open>Client network driver: \<open>client_ws_connection.py\<close>\<close>

subsection \<open>Connection configuration and its header dictionary\<close>

text \<open>
  Dictionaries are mutable objects: \<open>WebSocketClient.connect\<close> passes the very
  dictionary of \<open>ClientConfig.headers\<close> on to \<open>ConnectionConfig\<close>. The object store
  is a list of dictionaries, an address is an index into it, and a new object is
  appended.
\<close>

type_synonym store = "pydict list"

text \<open>
  The fields of \<open>ConnectionConfig\<close> after \<open>__post_init__\<close> (which replaces a missing UUID
  and a missing header dictionary); \<open>headers\<close> is the address of the dictionary. The
  heartbeat and TLS fields are passed to the transport unchanged and are left out.
\<close>

record ConnectionConfig =
  url :: string
  api_key :: string
  platform :: string
  connection_uuid :: string
  headers :: nat
  max_reconnect_attempts :: int
  reconnect_delay :: real
  max_reconnect_delay :: real

text \<open>\<open>d.copy()\<close>: a new object with the same entries; \<open>None\<close> when the address is dangling.\<close>

definition dict_copy :: "store \<Rightarrow> nat \<Rightarrow> (nat \<times> store) option" where
  "dict_copy h a = (if a < length h then Some (length h, h @ [h ! a]) else None)"

text \<open>\<open>d.update({...})\<close>: the object at the address is changed in place.\<close>

definition dict_update :: "store \<Rightarrow> nat \<Rightarrow> (string \<times> string) list \<Rightarrow> store" where
  "dict_update h a kvs =
     (if a < length h then h[a := fold (\<lambda>(k, v) d. d(k \<mapsto> v)) kvs (h ! a)] else h)"

definition get_headers :: "store \<Rightarrow> ConnectionConfig \<Rightarrow> (nat \<times> store) option" where
  "get_headers h config =
     (case dict_copy h (headers config) of
        None \<Rightarrow> None
      | Some (r, h1) \<Rightarrow>
          Some (r, dict_update h1 r
                     [(''x-uuid'', connection_uuid config),
                      (''x-apikey'', api_key config),
                      (''x-platform'', platform config)]))"

text \<open>
  The header part of \<open>ClientConfig.ensure_defaults\<close> (\<open>ws_config.py\<close>): a default is
  stored only under a key that the dictionary does not have yet.
\<close>

definition set_default :: "string \<times> string \<Rightarrow> pydict \<Rightarrow> pydict" where
  "set_default kv d = (case d (fst kv) of None \<Rightarrow> d(fst kv \<mapsto> snd kv) | Some _ \<Rightarrow> d)"

definition ensure_default_headers :: "store \<Rightarrow> nat \<Rightarrow> string \<Rightarrow> string \<Rightarrow> store" where
  "ensure_default_headers h a client_api_key client_platform =
     (if a < length h
      then h[a := fold set_default [(''x-apikey'', client_api_key), (''x-platform'', client_platform)]
                    (h ! a)]
      else h)"

subsection \<open>The connection loop\<close>

text \<open>
  \<open>_connection_loop\<close> runs against an environment it does not control: the outcome of
  each \<open>websockets.connect\<close>, and the flags \<open>self.running\<close>,
  \<open>connection_uuid in self.connections\<close> and \<open>self._shutdown_event.is_set()\<close>, which
  other tasks change while the loop is suspended. One \<open>iteration_env\<close> holds what one
  pass through the \<open>while\<close> body observes. When the list of observations is used up,
  the task is still suspended (in a connect, a session or a sleep): \<open>Pending\<close>.
\<close>

record loop_flags =
  is_running :: bool
  in_connections :: bool
  shutdown_set :: bool

datatype attempt =
    ConnectFailed
  | SessionClosedError
  | SessionError
  | SessionEnded

record iteration_env =
  at_head :: loop_flags
  outcome :: attempt
  at_decision :: loop_flags
  shutdown_after_wait :: bool

datatype loop_status = Exited | Pending

text \<open>
  The locals and the entries of the driver's tables that the loop writes:
  \<open>state\<close> is \<open>connection_states[connection_uuid]\<close>, \<open>active\<close> says whether the UUID is
  in \<open>active_connections\<close>, \<open>loop_delay\<close> and \<open>loop_attempts\<close> are the locals
  \<open>reconnect_delay\<close> and \<open>reconnect_attempts\<close>. \<open>connects\<close> counts the calls of
  \<open>websockets.connect\<close>, \<open>sleeps\<close> lists for every wait the delay asked for and the
  time spent, \<open>event_calls\<close> the calls of \<open>_send_event\<close>.
\<close>

record loop_state =
  state :: string
  active :: bool
  loop_delay :: real
  loop_attempts :: int
  connects :: nat
  sleeps :: "(real \<times> real) list"
  event_calls :: "EventType list"
  stat_total_connections :: int
  stat_current_connections :: int
  stat_reconnect_attempts :: int

text \<open>
  \<open>asyncio.wait_for(asyncio.sleep(d), timeout=30.0)\<close>: a sleep of at most zero seconds
  returns at once, a longer one is cut off by the timeout, whose \<open>TimeoutError\<close> the
  loop catches and ignores.
\<close>

definition time_waited :: "real \<Rightarrow> real" where
  "time_waited d = (if d \<le> 0 then 0 else min d 30)"

fun established :: "attempt \<Rightarrow> bool" where
  "established ConnectFailed = False"
| "established _ = True"

text \<open>
  \<open>ConnectionClosedError\<close> has its own handler, which only logs; every other exception
  counts a reconnect attempt in the statistics and emits a disconnect event.
\<close>

fun generic_exception :: "attempt \<Rightarrow> bool" where
  "generic_exception ConnectFailed = True"
| "generic_exception SessionError = True"
| "generic_exception _ = False"

text \<open>The \<open>try\<close> statement of the loop body with its handlers and its \<open>finally\<close> block.\<close>

definition attempt_connection :: "ConnectionConfig \<Rightarrow> attempt \<Rightarrow> loop_state \<Rightarrow> loop_state" where
  "attempt_connection config a st =
     (let st1 = st\<lparr>state := ''connecting'', connects := connects st + 1\<rparr>;
          st2 = (if established a
                 then st1\<lparr>active := True, state := ''connected'', loop_attempts := 0,
                          loop_delay := reconnect_delay config,
                          stat_total_connections := stat_total_connections st1 + 1,
                          stat_current_connections := stat_current_connections st1 + 1,
                          event_calls := event_calls st1 @ [CONNECT]\<rparr>
                 else st1);
          st3 = (if generic_exception a
                 then st2\<lparr>stat_reconnect_attempts := stat_reconnect_attempts st2 + 1,
                          event_calls := event_calls st2 @ [DISCONNECT]\<rparr>
                 else st2)
      in st3\<lparr>active := False,
              stat_current_connections := stat_current_connections st3 - 1,
              state := ''disconnected''\<rparr>)"

definition loop_condition :: "loop_flags \<Rightarrow> bool" where
  "loop_condition f = (is_running f \<and> in_connections f \<and> \<not> shutdown_set f)"

definition should_reconnect :: "ConnectionConfig \<Rightarrow> loop_flags \<Rightarrow> loop_state \<Rightarrow> bool" where
  "should_reconnect config f st =
     (is_running f \<and> in_connections f \<and> loop_attempts st < max_reconnect_attempts config
      \<and> \<not> shutdown_set f)"

fun connection_loop_from ::
  "ConnectionConfig \<Rightarrow> iteration_env list \<Rightarrow> loop_state \<Rightarrow> loop_status \<times> loop_state" where
  "connection_loop_from config [] st = (Pending, st)"
| "connection_loop_from config (e # es) st =
     (if \<not> loop_condition (at_head e) then (Exited, st)
      else
        (let st1 = attempt_connection config (outcome e) st
         in if should_reconnect config (at_decision e) st1
            then
              (let st2 = st1\<lparr>loop_attempts := loop_attempts st1 + 1,
                             sleeps := sleeps st1 @ [(loop_delay st1, time_waited (loop_delay st1))]\<rparr>
               in if shutdown_after_wait e then (Exited, st2)
                  else connection_loop_from config es
                         (st2\<lparr>loop_delay := min (max_reconnect_delay config) (loop_delay st2 * 2)\<rparr>))
            else
              (Exited,
               if in_connections (at_decision e) \<and> \<not> shutdown_set (at_decision e)
               then st1\<lparr>state := ''error''\<rparr> else st1)))"

text \<open>The state in which the loop starts, right after \<open>add_connection\<close>.\<close>

definition loop_start :: "ConnectionConfig \<Rightarrow> loop_state" where
  "loop_start config =
     \<lparr> state = ''disconnected'', active = False, loop_delay = reconnect_delay config,
       loop_attempts = 0, connects = 0, sleeps = [], event_calls = [],
       stat_total_connections = 0, stat_current_connections = 0,
       stat_reconnect_attempts = 0 \<rparr>"

definition connection_loop :: "ConnectionConfig \<Rightarrow> iteration_env list \<Rightarrow> loop_status \<times> loop_state" where
  "connection_loop config es = connection_loop_from config es (loop_start config)"

text \<open>
  The delay sequence in the words of the specification: it starts at \<open>d0\<close> and doubles
  up to the cap.
\<close>

fun spec_delay :: "real \<Rightarrow> real \<Rightarrow> nat \<Rightarrow> real" where
  "spec_delay d0 dmax 0 = d0"
| "spec_delay d0 dmax (Suc i) = min dmax (2 * spec_delay d0 dmax i)"

text \<open>An iteration in which nothing stops the loop, and one whose connect fails.\<close>

definition undisturbed :: "iteration_env \<Rightarrow> bool" where
  "undisturbed e =
     (loop_condition (at_head e) \<and> loop_condition (at_decision e) \<and> \<not> shutdown_after_wait e)"

definition failing :: "iteration_env \<Rightarrow> bool" where
  "failing e = (undisturbed e \<and> outcome e = ConnectFailed)"

subsection \<open>Driver tables, raw send, acknowledgement and events\<close>

record NetworkEvent =
  ev_type :: EventType
  ev_uuid :: string
  ev_config :: ConnectionConfig
  ev_payload :: "json option"
  ev_error :: "string option"

text \<open>
  \<open>connections\<close> is a dictionary in insertion order (the order in which the routing
  passes visit it). \<open>active_connections\<close> keeps the UUIDs that have a socket;
  \<open>connection_tasks\<close> keeps the UUIDs whose connection loop was started in the
  driver's own event loop and stored (a loop started from another thread through
  \<open>call_soon_threadsafe\<close> is not stored), \<open>cancelled_tasks\<close> the stored tasks on
  which \<open>cancel()\<close> was called. \<open>send_calls\<close> lists the frames handed to
  \<open>websocket.send\<close>, \<open>log_lines\<close> the warnings and errors written to the log.
\<close>

record ClientNetworkDriver =
  connections :: "(string \<times> ConnectionConfig) list"
  active_connections :: "string set"
  connection_states :: "string \<rightharpoonup> string"
  connection_tasks :: "string set"
  cancelled_tasks :: "string set"
  event_queue :: "NetworkEvent list option"
  driver_running :: bool
  messages_received :: nat
  bytes_received :: nat
  messages_sent :: nat
  bytes_sent :: nat
  send_calls :: "(string \<times> json) list"
  log_lines :: "string list"

datatype send_outcome = Sent | ConnectionClosed | SendFailed

text \<open>
  \<open>json.loads\<close> returns a value, raises \<open>JSONDecodeError\<close> on text that is not JSON, or
  raises another exception (\<open>RecursionError\<close> on deeply nested text, a plain
  \<open>ValueError\<close> on an integer literal longer than the interpreter's digit limit).
\<close>

datatype loads_result = Parsed json | JSONDecodeError | OtherError

text \<open>
  What the driver takes from outside: \<open>json.loads\<close>, \<open>json.dumps\<close>, \<open>str\<close> on a
  frame of bytes, the result of \<open>websocket.send\<close>, a fresh UUID and two readings of the
  clock.
\<close>

record client_env =
  loads :: "string \<Rightarrow> loads_result"
  dumps :: "json \<Rightarrow> string"
  str_of_bytes :: "string \<Rightarrow> string"
  ws_send :: "string \<Rightarrow> string \<Rightarrow> send_outcome"
  new_uuid :: string
  ack_time :: json
  ack_client_time :: json

datatype frame = Text string | Binary string | Dict "(string \<times> json) list"

definition send_raw_message ::
  "client_env \<Rightarrow> string \<Rightarrow> json \<Rightarrow> ClientNetworkDriver \<Rightarrow> bool \<times> ClientNetworkDriver" where
  "send_raw_message env uuid message d =
     (if uuid \<notin> active_connections d
      then (False, d\<lparr>log_lines := log_lines d @ [''connection not active'']\<rparr>)
      else
        (let message_str = dumps env message;
             d1 = d\<lparr>send_calls := send_calls d @ [(uuid, message)]\<rparr>
         in case ws_send env uuid message_str of
              Sent \<Rightarrow>
                (True, d1\<lparr>messages_sent := messages_sent d1 + 1,
                          bytes_sent := bytes_sent d1 + length message_str\<rparr>)
            | ConnectionClosed \<Rightarrow>
                (False, d1\<lparr>connection_states := (connection_states d1)(uuid \<mapsto> ''disconnected''),
                           log_lines := log_lines d1 @ [''connection closed while sending'']\<rparr>)
            | SendFailed \<Rightarrow>
                (False, d1\<lparr>log_lines := log_lines d1 @ [''error sending message'']\<rparr>)))"

definition ack_message :: "client_env \<Rightarrow> string \<Rightarrow> json \<Rightarrow> json" where
  "ack_message env uuid msg_id =
     JObj [(''ver'', JNum 1), (''msg_id'', JStr (new_uuid env)), (''type'', JStr ''sys_ack''),
           (''meta'', JObj [(''uuid'', JStr uuid), (''acked_msg_id'', msg_id),
                            (''timestamp'', ack_time env)]),
           (''payload'', JObj [(''status'', JStr ''received''),
                               (''client_timestamp'', ack_client_time env)])]"

definition send_ack :: "client_env \<Rightarrow> string \<Rightarrow> json \<Rightarrow> ClientNetworkDriver \<Rightarrow> ClientNetworkDriver" where
  "send_ack env uuid msg_id d = snd (send_raw_message env uuid (ack_message env uuid msg_id) d)"

definition send_event ::
  "EventType \<Rightarrow> string \<Rightarrow> json option \<Rightarrow> string option \<Rightarrow> ClientNetworkDriver
     \<Rightarrow> ClientNetworkDriver" where
  "send_event t uuid body err d =
     (case event_queue d of
        None \<Rightarrow> d\<lparr>log_lines := log_lines d @ [''event queue not available'']\<rparr>
      | Some q \<Rightarrow>
          (case map_of (connections d) uuid of
             None \<Rightarrow> d\<lparr>log_lines := log_lines d @ [''no config for connection'']\<rparr>
           | Some config \<Rightarrow>
               d\<lparr>event_queue :=
                    Some (q @ [\<lparr> ev_type = t, ev_uuid = uuid, ev_config = config,
                                 ev_payload = body, ev_error = err \<rparr>])\<rparr>))"

text \<open>
  The value bound to \<open>data\<close> in \<open>_handle_message\<close>, and \<open>None\<close> when an exception
  leaves the parsing step for the outer handler: only \<open>JSONDecodeError\<close> is caught
  there and wrapped; any other exception of \<open>json.loads\<close> goes on, and so does the
  \<open>AttributeError\<close> of \<open>data.keys()\<close> on a parsed value that is not a dictionary.
\<close>

definition parse_frame :: "client_env \<Rightarrow> frame \<Rightarrow> json option" where
  "parse_frame env message =
     (case message of
        Text s \<Rightarrow> (case loads env s of
                     Parsed v \<Rightarrow> (case v of JObj kvs \<Rightarrow> Some v | _ \<Rightarrow> None)
                   | JSONDecodeError \<Rightarrow> Some (JObj [(''raw_message'', JStr s)])
                   | OtherError \<Rightarrow> None)
      | Dict kvs \<Rightarrow> Some (JObj kvs)
      | Binary b \<Rightarrow> Some (JObj [(''data'', JStr (str_of_bytes env b))]))"

text \<open>
  The outer handler of \<open>_handle_message\<close> logs the exception and returns: the frame is
  dropped, and the read loop goes on.
\<close>

definition handle_message ::
  "client_env \<Rightarrow> string \<Rightarrow> frame \<Rightarrow> ClientNetworkDriver \<Rightarrow> ClientNetworkDriver" where
  "handle_message env uuid message d =
     (let d1 = d\<lparr>messages_received := messages_received d + 1,
                 bytes_received := bytes_received d
                                   + (case message of Text s \<Rightarrow> length s | _ \<Rightarrow> 0)\<rparr>;
          failed = d1\<lparr>log_lines := log_lines d1 @ [''message handling error'']\<rparr>
      in case parse_frame env message of
           None \<Rightarrow> failed
         | Some data \<Rightarrow>
             (case data of
                JObj kvs \<Rightarrow>
                  (let msg_id = dict_get kvs ''msg_id'';
                       d2 = (if truthy msg_id \<and> dict_get kvs ''type'' \<noteq> JStr ''sys_ack''
                             then send_ack env uuid msg_id d1 else d1)
                   in send_event MESSAGE uuid (Some data) None d2)
              | _ \<Rightarrow> failed))"

text \<open>Reading a key of a JSON value that may or may not be an object.\<close>

definition json_get :: "json \<Rightarrow> string \<Rightarrow> json" where
  "json_get j k = (case j of JObj kvs \<Rightarrow> dict_get kvs k | _ \<Rightarrow> JNull)"

text \<open>
  The condition for an acknowledgement in the words of the specification: the parsed
  data carries a message id that is not empty, and its type is not \<open>sys_ack\<close>.
\<close>

definition ack_due :: "json option \<Rightarrow> bool" where
  "ack_due data =
     (\<exists>kvs. data = Some (JObj kvs) \<and> truthy (dict_get kvs ''msg_id'')
            \<and> dict_get kvs ''type'' \<noteq> JStr ''sys_ack'')"

text \<open>
  One turn of the read loop \<open>async for message in websocket\<close>: \<open>None\<close> is the
  \<open>break\<close>.
\<close>

definition read_loop_step ::
  "client_env \<Rightarrow> string \<Rightarrow> frame \<Rightarrow> ClientNetworkDriver \<Rightarrow> ClientNetworkDriver option" where
  "read_loop_step env uuid message d =
     (if \<not> driver_running d \<or> map_of (connections d) uuid = None then None
      else Some (handle_message env uuid message d))"

text \<open>
  \<open>disconnect\<close>: a stored loop task is cancelled and forgotten, and the connection is
  taken out of \<open>active_connections\<close> without waiting for the socket to close. The
  entry in \<open>connections\<close> stays, so the guard of a read loop that was not cancelled
  still holds afterwards.
\<close>

definition disconnect :: "string \<Rightarrow> ClientNetworkDriver \<Rightarrow> bool \<times> ClientNetworkDriver" where
  "disconnect uuid d =
     (if map_of (connections d) uuid = None
      then (False, d\<lparr>log_lines := log_lines d @ [''connection not found'']\<rparr>)
      else
        (let d1 = (if uuid \<in> connection_tasks d
                   then d\<lparr>cancelled_tasks := insert uuid (cancelled_tasks d),
                          connection_tasks := connection_tasks d - {uuid}\<rparr>
                   else d);
             d2 = (if uuid \<in> active_connections d1
                   then d1\<lparr>connection_states :=
                               (connection_states d1)(uuid \<mapsto> ''disconnected''),
                           active_connections := active_connections d1 - {uuid}\<rparr>
                   else d1)
         in (True, d2)))"

section \<open>Client business layer: \<open>client_ws_api.py\<close>\<close>

text \<open>One \<open>for\<close> loop over \<open>connections.items()\<close> that returns at the first hit.\<close>

fun first_match ::
  "(string \<times> ConnectionConfig \<Rightarrow> bool) \<Rightarrow> (string \<times> ConnectionConfig) list \<Rightarrow> string option" where
  "first_match P [] = None"
| "first_match P (x # xs) = (if P x then Some (fst x) else first_match P xs)"

definition is_connected :: "ClientNetworkDriver \<Rightarrow> string \<Rightarrow> bool" where
  "is_connected d u = (connection_states d u = Some ''connected'')"

definition exact_match :: "ClientNetworkDriver \<Rightarrow> string \<Rightarrow> string \<Rightarrow> string \<times> ConnectionConfig \<Rightarrow> bool" where
  "exact_match d k p x = (api_key (snd x) = k \<and> platform (snd x) = p \<and> is_connected d (fst x))"

definition key_match :: "ClientNetworkDriver \<Rightarrow> string \<Rightarrow> string \<times> ConnectionConfig \<Rightarrow> bool" where
  "key_match d k x = (api_key (snd x) = k \<and> is_connected d (fst x))"

definition platform_match :: "ClientNetworkDriver \<Rightarrow> string \<Rightarrow> string \<times> ConnectionConfig \<Rightarrow> bool" where
  "platform_match d p x = (platform (snd x) = p \<and> is_connected d (fst x))"

definition find_connection_for_target ::
  "ClientNetworkDriver \<Rightarrow> string \<Rightarrow> string \<Rightarrow> string option" where
  "find_connection_for_target d target_api_key target_platform =
     (case first_match (exact_match d target_api_key target_platform) (connections d) of
        Some u \<Rightarrow> Some u
      | None \<Rightarrow>
          (case first_match (key_match d target_api_key) (connections d) of
             Some u \<Rightarrow> Some u
           | None \<Rightarrow> first_match (platform_match d target_platform) (connections d)))"

text \<open>
  The specification's reading of "the first connection that satisfies \<open>P\<close>": the entry
  is in the table and no entry before it satisfies \<open>P\<close>.
\<close>

definition first_satisfying ::
  "(string \<times> ConnectionConfig \<Rightarrow> bool) \<Rightarrow> (string \<times> ConnectionConfig) list \<Rightarrow> string \<Rightarrow> bool" where
  "first_satisfying P xs u =
     (\<exists>pre c post. xs = pre @ (u, c) # post \<and> P (u, c) \<and> (\<forall>e \<in> set pre. \<not> P e))"

section \<open>Example inputs\<close>

definition example_config :: ServerConfig where
  "example_config =
     \<lparr> on_auth = (\<lambda>d. Some (d ''api_key'' \<noteq> None \<and> d ''api_key'' \<noteq> Some [])),
       on_auth_extract_user = (\<lambda>d. d ''api_key'') \<rparr>"

definition connect_event :: "string \<Rightarrow> string \<Rightarrow> string \<Rightarrow> ServerEvent" where
  "connect_event c k p =
     \<lparr> event_type = CONNECT, metadata = \<lparr> md_uuid = c, md_api_key = k, md_platform = p \<rparr>,
       payload = JNull \<rparr>"

definition disconnect_event :: "string \<Rightarrow> string \<Rightarrow> string \<Rightarrow> ServerEvent" where
  "disconnect_event c k p =
     \<lparr> event_type = DISCONNECT, metadata = \<lparr> md_uuid = c, md_api_key = k, md_platform = p \<rparr>,
       payload = JNull \<rparr>"

text \<open>A started server on which one client (\<open>c1\<close>, API key \<open>u1\<close>, platform \<open>qq\<close>) is registered.\<close>

definition one_client :: WebSocketServer where
  "one_client =
     dispatcher_loop example_config [connect_event ''c1'' ''u1'' ''qq''] (start server_init)"

definition example_message :: "string \<Rightarrow> string \<Rightarrow> APIMessageBase" where
  "example_message k p = \<lparr> get_api_key = k, get_platform = p, message_dict = JNull \<rparr>"

text \<open>
  A client connection with the default reconnect policy, a header dictionary in which
  the user has put an \<open>x-apikey\<close> of their own, and a driver that manages three
  connections, the third of which is not connected. The connection loops were
  started from the business layer's thread, so no task is stored.
\<close>

definition example_connection :: ConnectionConfig where
  "example_connection =
     \<lparr> url = ''ws://localhost:18040/ws'', api_key = ''u1'', platform = ''qq'',
       connection_uuid = ''c1'', headers = 0, max_reconnect_attempts = 5,
       reconnect_delay = 1, max_reconnect_delay = 30 \<rparr>"

definition example_store :: store where
  "example_store = [[''x-apikey'' \<mapsto> ''other'', ''x-trace'' \<mapsto> ''t'']]"

definition example_driver :: ClientNetworkDriver where
  "example_driver =
     \<lparr> connections =
         [(''c0'', example_connection\<lparr>connection_uuid := ''c0'', platform := ''wechat''\<rparr>),
          (''c1'', example_connection),
          (''c2'', example_connection\<lparr>connection_uuid := ''c2'', api_key := ''u2''\<rparr>)],
       active_connections = {''c0'', ''c1''},
       connection_states = [''c0'' \<mapsto> ''connected'', ''c1'' \<mapsto> ''connected'',
                            ''c2'' \<mapsto> ''disconnected''],
       connection_tasks = {}, cancelled_tasks = {},
       event_queue = Some [], driver_running = True,
       messages_received = 0, bytes_received = 0, messages_sent = 0, bytes_sent = 0,
       send_calls = [], log_lines = [] \<rparr>"

text \<open>
  An environment in which no text is JSON and every write to the socket fails, and a
  frame that carries a message id. \<open>str\<close> of a frame of bytes is given as it is for
  printable bytes without quotes and backslashes: the bytes between \<open>b'\<close> and \<open>'\<close>.
\<close>

definition example_env :: client_env where
  "example_env =
     \<lparr> loads = (\<lambda>s. JSONDecodeError), dumps = (\<lambda>j. ''{}''),
       str_of_bytes = (\<lambda>b. CHR ''b'' # CHR 0x27 # b @ [CHR 0x27]),
       ws_send = (\<lambda>u m. SendFailed),
       new_uuid = ''ack-1'', ack_time = JNum 0, ack_client_time = JNum 0 \<rparr>"

definition example_frame :: frame where
  "example_frame = Dict [(''msg_id'', JStr ''m1''), (''type'', JStr ''sys_std'')]"

text \<open>
  A text of a hundred thousand opening brackets, on which \<open>json.loads\<close> raises
  \<open>RecursionError\<close>, and an environment that has this.
\<close>

definition deep_text :: string where
  "deep_text = replicate 100000 (CHR ''['')"

definition recursion_env :: client_env where
  "recursion_env =
     example_env\<lparr>loads := (\<lambda>s. if s = deep_text then OtherError else JSONDecodeError)\<rparr>"

text \<open>
  An iteration of the connection loop in which the driver keeps running and the
  connect fails; a connection whose first delay is longer than the 30 seconds of the
  wait's timeout; and a connection that is allowed one reconnect attempt.
\<close>

definition steady :: loop_flags where
  "steady = \<lparr> is_running = True, in_connections = True, shutdown_set = False \<rparr>"

definition failing_env :: iteration_env where
  "failing_env = \<lparr> at_head = steady, outcome = ConnectFailed, at_decision = steady,
                    shutdown_after_wait = False \<rparr>"

definition slow_connection :: ConnectionConfig where
  "slow_connection = example_connection\<lparr>reconnect_delay := 40, max_reconnect_delay := 100\<rparr>"

definition one_retry :: ConnectionConfig where
  "one_retry = example_connection\<lparr>max_reconnect_attempts := 1\<rparr>"



definition other_platform_events :: "ServerEvent list" where
  "other_platform_events =
     [connect_event ''c1'' ''u1'' ''qq'', disconnect_event ''c1'' ''u1'' ''wechat'']"

section \<open>The registry after one connect\<close>

lemmas connect_defs =
  example_config_def connect_event_def start_def server_init_def dispatch_def
  handle_connect_event_def authenticate_connection_def to_dict_def add_user_connection_def
  add_platform_connection_def update_counts_def Let_def

lemma one_client_user_connections:
  "user_connections one_client = [''u1'' \<mapsto> [''qq'' \<mapsto> {''c1''}]]"
  by (simp add: one_client_def connect_defs)

lemma one_client_platform_connections:
  "platform_connections one_client = [''qq'' \<mapsto> {''c1''}]"
  by (simp add: one_client_def connect_defs)

lemma one_client_connection_users:
  "connection_users one_client = [''c1'' \<mapsto> ''u1'']"
  by (simp add: one_client_def connect_defs)

lemma one_client_metadata:
  "connection_metadata one_client ''c1'' \<noteq> None"
  by (simp add: one_client_def connect_defs)

lemma one_client_running: "running one_client"
  by (simp add: one_client_def connect_defs)

lemma one_client_count: "current_connections (stats one_client) = 1"
  by (simp add: one_client_def connect_defs)

section \<open>The registry invariant\<close>











lemma same_registry_update_counts: "same_registry (update_counts s) s"
  by (simp add: same_registry_def update_counts_def)

















lemma example_connect:
  assumes "k \<noteq> []"
  shows "user_connections (dispatch example_config (connect_event c k p) s)
           = add_user_connection (user_connections s) k p c"
    and "platform_connections (dispatch example_config (connect_event c k p) s)
           = add_platform_connection (platform_connections s) p c"
    and "connection_users (dispatch example_config (connect_event c k p) s)
           = (connection_users s)(c \<mapsto> k)"
    and "connection_metadata (dispatch example_config (connect_event c k p) s)
           = (connection_metadata s)(c \<mapsto> [''uuid'' \<mapsto> c, ''api_key'' \<mapsto> k,
                                               ''platform'' \<mapsto> p])"
  using assms
  by (simp_all add: dispatch_def connect_event_def handle_connect_event_def
      authenticate_connection_def example_config_def to_dict_def Let_def update_counts_def)

lemma event_fields:
  "event_type (connect_event c k p) = CONNECT"
  "event_type (disconnect_event c k p) = DISCONNECT"
  "md_uuid (metadata (connect_event c k p)) = c"
  "md_uuid (metadata (disconnect_event c k p)) = c"
  "md_platform (metadata (connect_event c k p)) = p"
  "md_platform (metadata (disconnect_event c k p)) = p"
  by (simp_all add: connect_event_def disconnect_event_def)

lemma dispatch_disconnect:
  "dispatch cfg (disconnect_event c k p) s = handle_disconnect_event (disconnect_event c k p) s"
  by (simp add: dispatch_def event_fields)





lemma other_platform_state:
  "platform_connections (dispatcher_loop example_config other_platform_events server_init)
     = [''qq'' \<mapsto> {''c1''}]"
  "user_connections (dispatcher_loop example_config other_platform_events server_init)
     = Map.empty"
  by (simp_all add: other_platform_events_def dispatch_disconnect event_fields
      handle_disconnect_event_def given_def example_connect server_init_def
      add_user_connection_def add_platform_connection_def remove_user_connection_def
      discard_prune_def update_counts_def Let_def)

text \<open>
  The disconnect handler takes the platform for \<open>user_connections\<close> from the stored
  metadata and the platform for \<open>platform_connections\<close> from the event: when the two
  differ, the platform index keeps a connection that no user has.
\<close>

lemma registry_invariant_broken_by_other_platform:
  "\<not> registry_invariant (dispatcher_loop example_config other_platform_events server_init)"
proof
  let ?s = "dispatcher_loop example_config other_platform_events server_init"
  assume "registry_invariant ?s"
  then have "\<forall>p. set_of (platform_connections ?s) p = (\<Union>u. conns_of (user_connections ?s) u p)"
    unfolding registry_invariant_def by (elim conjE)
  then have "set_of (platform_connections ?s) ''qq'' = (\<Union>u. conns_of (user_connections ?s) u ''qq'')"
    by (rule spec)
  then show False
    by (simp add: other_platform_state set_of_def conns_of_def)
qed

section \<open>Sending by identity\<close>

text \<open>
  C2. Let \<open>u\<close> be the user that \<open>on_auth_extract_user\<close> resolves from the message's API
  key. When \<open>u\<close> has no entry in \<open>user_connections\<close>, or its entry has no set for the
  message's platform, \<open>send_message\<close> returns the empty result dictionary, writes to no
  connection, and raises nothing. Otherwise it writes to exactly the UUIDs in
  \<open>user_connections[u][platform]\<close> and the result dictionary maps each of them to the
  result of its send.
\<close>

theorem send_message_routing:
  assumes "on_auth_extract_user cfg [''api_key'' \<mapsto> get_api_key message] = Some u"
  shows "(user_connections s u = None
            \<longrightarrow> send_message cfg send millis now s message = no_send)
       \<and> (\<forall>m. user_connections s u = Some m \<and> m (get_platform message) = None
            \<longrightarrow> send_message cfg send millis now s message = no_send)
       \<and> (\<forall>m S. user_connections s u = Some m \<and> m (get_platform message) = Some S
            \<longrightarrow> sent_to (send_message cfg send millis now s message) = S
              \<and> results (send_message cfg send millis now s message) =
                  (\<lambda>c. if c \<in> S
                       then Some (send c (std_package millis now u (get_platform message)
                                            (message_dict message)))
                       else None))"
  using assms by (auto simp: send_message_def send_to_all_def Let_def)

theorem send_message_routing_witness:
  "on_auth_extract_user example_config [''api_key'' \<mapsto> ''u1''] = Some ''u1''
   \<and> sent_to (send_message example_config (\<lambda>c p. True) ''0'' JNull one_client
                (example_message ''u1'' ''qq'')) = {''c1''}
   \<and> send_message example_config (\<lambda>c p. True) ''0'' JNull one_client
        (example_message ''u1'' ''wechat'') = no_send
   \<and> send_message example_config (\<lambda>c p. True) ''0'' JNull one_client
        (example_message ''u2'' ''qq'') = no_send"
proof -
  have k1: "on_auth_extract_user example_config
              [''api_key'' \<mapsto> get_api_key (example_message ''u1'' ''qq'')] = Some ''u1''"
    by (simp add: example_config_def example_message_def)
  have k2: "on_auth_extract_user example_config
              [''api_key'' \<mapsto> get_api_key (example_message ''u1'' ''wechat'')] = Some ''u1''"
    by (simp add: example_config_def example_message_def)
  have k3: "on_auth_extract_user example_config
              [''api_key'' \<mapsto> get_api_key (example_message ''u2'' ''qq'')] = Some ''u2''"
    by (simp add: example_config_def example_message_def)
  show ?thesis
    using send_message_routing [OF k1, of one_client "\<lambda>c p. True" "''0''" JNull]
          send_message_routing [OF k2, of one_client "\<lambda>c p. True" "''0''" JNull]
          send_message_routing [OF k3, of one_client "\<lambda>c p. True" "''0''" JNull]
    by (simp add: one_client_user_connections example_message_def example_config_def)
qed

section \<open>Custom sends\<close>

text \<open>
  C3. The claim says that a custom send addressed by user reaches all of that user's
  connections, and that user plus platform reaches the intersection with the
  platform's connections. On the server with the single registered connection \<open>c1\<close> of
  user \<open>u1\<close> on platform \<open>qq\<close>, the send addressed to user \<open>u1\<close> writes to the platform
  name \<open>qq\<close> instead of \<open>c1\<close>, and the send addressed to user \<open>u1\<close> on platform \<open>qq\<close>
  ends in a \<open>TypeError\<close>: the value stored under a user is a dictionary keyed by
  platform, not the set of UUIDs that \<open>send_custom_message\<close> takes it for.
\<close>

theorem send_custom_message_by_user_misroutes:
  "send_custom_message send millis now one_client mt body (Some ''u1'') None None
     = Inr (send_to_all send (custom_package millis now mt body (Some ''u1'') None) {''qq''})
   \<and> send_custom_message send millis now one_client mt body (Some ''u1'') (Some ''qq'') None
     = Inl TypeError"
  by (simp add: send_custom_message_def custom_targets_def given_def
      one_client_user_connections one_client_platform_connections)

text \<open>
  The two other addressing modes do what the claim says: an explicit UUID is the only
  target, and with neither UUID nor user nothing is sent.
\<close>

lemma send_custom_message_by_uuid:
  "c \<noteq> [] \<Longrightarrow>
   send_custom_message send millis now s mt body tu tp (Some c)
     = Inr (send_to_all send (custom_package millis now mt body tu tp) {c})"
  by (simp add: send_custom_message_def custom_targets_def given_def)

lemma send_custom_message_no_target:
  "given cu = None \<Longrightarrow> given tu = None \<Longrightarrow>
   send_custom_message send millis now s mt body tu tp cu
     = Inr (send_to_all send (custom_package millis now mt body tu tp) {})"
  by (simp add: send_custom_message_def custom_targets_def)

section \<open>Stopping the server\<close>

text \<open>
  C8. The claim says that after \<open>stop\<close> the connection count is zero and all four
  registry maps are empty. With one registered connection, \<open>stop\<close> empties
  \<open>user_connections\<close>, \<open>platform_connections\<close> and \<open>connection_users\<close>, so
  \<open>get_connection_count\<close> is zero; but \<open>connection_metadata\<close> still holds the entry of
  \<open>c1\<close> and the counter \<open>stats["current_connections"]\<close> still reads one.
\<close>

theorem stop_keeps_connection_metadata:
  "connection_metadata (stop one_client) ''c1'' \<noteq> None
   \<and> current_connections (stats (stop one_client)) = 1
   \<and> get_connection_count (stop one_client) = 0
   \<and> user_connections (stop one_client) = Map.empty
   \<and> platform_connections (stop one_client) = Map.empty
   \<and> connection_users (stop one_client) = Map.empty"
  by (simp add: stop_def one_client_running one_client_metadata one_client_count
      get_connection_count_def)

section \<open>Client-side target resolution\<close>

lemma first_match_None: "first_match P xs = None \<longleftrightarrow> (\<forall>e \<in> set xs. \<not> P e)"
  by (induction xs) auto

lemma first_satisfying_Cons_hit:
  assumes "P x"
  shows "first_satisfying P (x # xs) u \<longleftrightarrow> fst x = u"
proof
  assume "first_satisfying P (x # xs) u"
  then obtain pre c post where d: "x # xs = pre @ (u, c) # post" "\<forall>e \<in> set pre. \<not> P e"
    by (auto simp: first_satisfying_def)
  with assms have "pre = []" by (cases pre) auto
  with d show "fst x = u" by simp
next
  assume "fst x = u"
  with assms have "x # xs = [] @ (u, snd x) # xs \<and> P (u, snd x) \<and> (\<forall>e \<in> set []. \<not> P e)"
    by auto
  then show "first_satisfying P (x # xs) u"
    unfolding first_satisfying_def by blast
qed

lemma first_satisfying_Cons_miss:
  assumes "\<not> P x"
  shows "first_satisfying P (x # xs) u \<longleftrightarrow> first_satisfying P xs u"
proof
  assume "first_satisfying P (x # xs) u"
  then obtain pre c post where d: "x # xs = pre @ (u, c) # post" "P (u, c)"
      "\<forall>e \<in> set pre. \<not> P e"
    by (auto simp: first_satisfying_def)
  with assms obtain pre' where "pre = x # pre'" by (cases pre) auto
  with d have "xs = pre' @ (u, c) # post \<and> P (u, c) \<and> (\<forall>e \<in> set pre'. \<not> P e)" by auto
  then show "first_satisfying P xs u" unfolding first_satisfying_def by blast
next
  assume "first_satisfying P xs u"
  then obtain pre c post where d: "xs = pre @ (u, c) # post" "P (u, c)"
      "\<forall>e \<in> set pre. \<not> P e"
    by (auto simp: first_satisfying_def)
  with assms have "x # xs = (x # pre) @ (u, c) # post \<and> P (u, c)
                   \<and> (\<forall>e \<in> set (x # pre). \<not> P e)" by auto
  then show "first_satisfying P (x # xs) u" unfolding first_satisfying_def by blast
qed

lemma first_match_Some: "first_match P xs = Some u \<longleftrightarrow> first_satisfying P xs u"
proof (induction xs)
  case Nil
  then show ?case by (simp add: first_satisfying_def)
next
  case (Cons x xs)
  then show ?case
    by (cases "P x") (simp_all add: first_satisfying_Cons_hit first_satisfying_Cons_miss)
qed

lemma first_satisfying_exists: "first_satisfying P xs u \<Longrightarrow> \<exists>e \<in> set xs. P e"
  by (auto simp: first_satisfying_def)

text \<open>
  C6. Target resolution returns the first connection, in table order, of the first of
  three tiers that has one: (1) API key and platform both match and the connection is
  connected; (2) the API key matches and the connection is connected; (3) the platform
  matches and the connection is connected. It returns \<open>None\<close> exactly when no
  connection of the table satisfies any tier.
\<close>

theorem find_connection_for_target_tiers:
  "(find_connection_for_target d k p = Some u \<longleftrightarrow>
      first_satisfying (exact_match d k p) (connections d) u
      \<or> ((\<forall>e \<in> set (connections d). \<not> exact_match d k p e)
           \<and> first_satisfying (key_match d k) (connections d) u)
      \<or> ((\<forall>e \<in> set (connections d). \<not> exact_match d k p e \<and> \<not> key_match d k e)
           \<and> first_satisfying (platform_match d p) (connections d) u))
   \<and> (find_connection_for_target d k p = None \<longleftrightarrow>
        (\<forall>e \<in> set (connections d).
            \<not> exact_match d k p e \<and> \<not> key_match d k e \<and> \<not> platform_match d p e))"
proof -
  let ?E = "first_match (exact_match d k p) (connections d)"
  let ?K = "first_match (key_match d k) (connections d)"
  let ?P = "first_match (platform_match d p) (connections d)"
  have f: "find_connection_for_target d k p =
             (case ?E of Some u \<Rightarrow> Some u | None \<Rightarrow> (case ?K of Some u \<Rightarrow> Some u | None \<Rightarrow> ?P))"
    by (simp add: find_connection_for_target_def)
  show ?thesis
  proof (cases ?E)
    case (Some a)
    then have fs: "first_satisfying (exact_match d k p) (connections d) a"
      by (simp add: first_match_Some)
    then have ex: "\<exists>e \<in> set (connections d). exact_match d k p e"
      by (rule first_satisfying_exists)
    have r: "find_connection_for_target d k p = Some a" using f Some by simp
    have "first_satisfying (exact_match d k p) (connections d) u \<longleftrightarrow> u = a"
      using Some by (auto simp: first_match_Some [symmetric])
    with r ex show ?thesis by auto
  next
    case None
    note nE = None
    then have noE: "\<forall>e \<in> set (connections d). \<not> exact_match d k p e"
      by (simp add: first_match_None)
    then have nfE: "\<not> first_satisfying (exact_match d k p) (connections d) u"
      using first_satisfying_exists by blast
    show ?thesis
    proof (cases ?K)
      case (Some a)
      then have "first_satisfying (key_match d k) (connections d) a"
        by (simp add: first_match_Some)
      then have ex: "\<exists>e \<in> set (connections d). key_match d k e"
        by (rule first_satisfying_exists)
      have r: "find_connection_for_target d k p = Some a" using f nE Some by simp
      have "first_satisfying (key_match d k) (connections d) u \<longleftrightarrow> u = a"
        using Some by (auto simp: first_match_Some [symmetric])
      with r ex noE nfE show ?thesis by auto
    next
      case None
      then have noK: "\<forall>e \<in> set (connections d). \<not> key_match d k e"
        by (simp add: first_match_None)
      then have nfK: "\<not> first_satisfying (key_match d k) (connections d) u"
        using first_satisfying_exists by blast
      have r: "find_connection_for_target d k p = ?P" using f nE None by simp
      have s: "?P = Some u \<longleftrightarrow> first_satisfying (platform_match d p) (connections d) u"
        by (rule first_match_Some)
      have n: "?P = None \<longleftrightarrow> (\<forall>e \<in> set (connections d). \<not> platform_match d p e)"
        by (rule first_match_None)
      show ?thesis unfolding r s n using noE noK nfE nfK by blast
    qed
  qed
qed

theorem find_connection_for_target_tiers_witness:
  "first_satisfying (exact_match example_driver ''u1'' ''qq'') (connections example_driver) ''c1''
   \<and> find_connection_for_target example_driver ''u1'' ''qq'' = Some ''c1''
   \<and> (\<exists>e \<in> set (connections example_driver). exact_match example_driver ''u1'' ''qq'' e)
   \<and> find_connection_for_target example_driver ''u2'' ''telegram'' = None"
proof -
  have a: "first_satisfying (exact_match example_driver ''u1'' ''qq'')
             (connections example_driver) ''c1''"
    by (simp add: first_match_Some [symmetric] example_driver_def example_connection_def
        exact_match_def is_connected_def)
  have b: "\<forall>e \<in> set (connections example_driver).
             \<not> exact_match example_driver ''u2'' ''telegram'' e
             \<and> \<not> key_match example_driver ''u2'' e
             \<and> \<not> platform_match example_driver ''telegram'' e"
    by (simp add: example_driver_def example_connection_def exact_match_def key_match_def
        platform_match_def is_connected_def)
  have c: "find_connection_for_target example_driver ''u1'' ''qq'' = Some ''c1''"
    using a find_connection_for_target_tiers [of example_driver "''u1''" "''qq''" "''c1''"]
    by (simp only: simp_thms)
  have d: "find_connection_for_target example_driver ''u2'' ''telegram'' = None"
    using b find_connection_for_target_tiers [of example_driver "''u2''" "''telegram''" "''c1''"]
    by (simp only: simp_thms)
  have e: "\<exists>e \<in> set (connections example_driver). exact_match example_driver ''u1'' ''qq'' e"
    using a by (rule first_satisfying_exists)
  show ?thesis using a c d e by (intro conjI)
qed

section \<open>Connection headers\<close>

lemma dict_copy_valid:
  "a < length h \<Longrightarrow> dict_copy h a = Some (length h, h @ [h ! a])"
  by (simp add: dict_copy_def)

lemma dict_update_last:
  "dict_update (h @ [d]) (length h) kvs = h @ [fold (\<lambda>(k, v) d. d(k \<mapsto> v)) kvs d]"
  by (simp add: dict_update_def)

lemma get_headers_valid:
  assumes "headers config < length h"
  shows "get_headers h config =
           Some (length h,
                 h @ [(h ! headers config)(''x-uuid'' \<mapsto> connection_uuid config,
                                           ''x-apikey'' \<mapsto> api_key config,
                                           ''x-platform'' \<mapsto> platform config)])"
  unfolding get_headers_def dict_copy_valid [OF assms]
  by (simp only: option.case prod.case dict_update_last fold_simps case_prod_conv o_apply id_apply)


text \<open>
  C10. \<open>get_headers\<close> returns a new dictionary in which \<open>x-uuid\<close>, \<open>x-apikey\<close> and
  \<open>x-platform\<close> are the configuration's \<open>connection_uuid\<close>, \<open>api_key\<close> and
  \<open>platform\<close>, whatever the stored header dictionary holds under these keys; every
  other key is taken over from the stored dictionary; and no dictionary that existed
  before the call, the stored one among them, is changed.
\<close>

theorem get_headers_identity:
  assumes "headers config < length h"
  shows "\<exists>r h'. get_headers h config = Some (r, h')
     \<and> r = length h \<and> length h' = Suc (length h)
     \<and> (h' ! r) ''x-uuid'' = Some (connection_uuid config)
     \<and> (h' ! r) ''x-apikey'' = Some (api_key config)
     \<and> (h' ! r) ''x-platform'' = Some (platform config)
     \<and> (\<forall>k. k \<notin> {''x-uuid'', ''x-apikey'', ''x-platform''}
            \<longrightarrow> (h' ! r) k = (h ! headers config) k)
     \<and> (\<forall>a < length h. h' ! a = h ! a)"
proof -
  let ?d = "(h ! headers config)(''x-uuid'' \<mapsto> connection_uuid config,
              ''x-apikey'' \<mapsto> api_key config, ''x-platform'' \<mapsto> platform config)"
  have g: "get_headers h config = Some (length h, h @ [?d])"
    by (rule get_headers_valid [OF assms])
  have n: "(h @ [?d]) ! length h = ?d" by simp
  have o: "\<forall>a < length h. (h @ [?d]) ! a = h ! a" by (simp add: nth_append)
  have k: "\<forall>k. k \<notin> {''x-uuid'', ''x-apikey'', ''x-platform''} \<longrightarrow> ?d k = (h ! headers config) k"
    by simp
  have "?d ''x-uuid'' = Some (connection_uuid config)" by simp
  moreover have "?d ''x-apikey'' = Some (api_key config)" by simp
  moreover have "?d ''x-platform'' = Some (platform config)" by simp
  ultimately show ?thesis using g n o k by (intro exI [of _ "length h"] exI [of _ "h @ [?d]"]) simp
qed

theorem get_headers_identity_witness:
  "headers example_connection < length example_store
   \<and> (example_store ! 0) ''x-apikey'' = Some ''other''
   \<and> (\<exists>r h'. get_headers example_store example_connection = Some (r, h')
        \<and> (h' ! r) ''x-apikey'' = Some ''u1''
        \<and> (h' ! r) ''x-trace'' = Some ''t''
        \<and> (h' ! 0) ''x-apikey'' = Some ''other'')"
proof -
  have v: "headers example_connection < length example_store"
    by (simp add: example_connection_def example_store_def)
  from get_headers_identity [OF v] obtain r h' where
    g: "get_headers example_store example_connection = Some (r, h')"
       "(h' ! r) ''x-apikey'' = Some (api_key example_connection)"
       "\<forall>k. k \<notin> {''x-uuid'', ''x-apikey'', ''x-platform''}
            \<longrightarrow> (h' ! r) k = (example_store ! headers example_connection) k"
       "\<forall>a < length example_store. h' ! a = example_store ! a"
    by (elim exE conjE) (rule that)
  have s0: "example_store ! 0 = [''x-apikey'' \<mapsto> ''other'', ''x-trace'' \<mapsto> ''t'']"
    by (simp add: example_store_def)
  have hc: "headers example_connection = 0" "api_key example_connection = ''u1''"
    by (simp_all add: example_connection_def)
  have "(h' ! r) ''x-trace'' = (example_store ! headers example_connection) ''x-trace''"
    by (rule g(3) [rule_format]) simp
  then have a: "(h' ! r) ''x-trace'' = Some ''t''" by (simp add: hc s0)
  have "h' ! 0 = example_store ! 0"
    by (rule g(4) [rule_format]) (simp add: example_store_def)
  then have b: "(h' ! 0) ''x-apikey'' = Some ''other''" by (simp add: s0)
  have c: "(h' ! r) ''x-apikey'' = Some ''u1''" using g(2) by (simp add: hc)
  have d: "(example_store ! 0) ''x-apikey'' = Some ''other''" by (simp add: s0)
  from g(1) a b c have "\<exists>r h'. get_headers example_store example_connection = Some (r, h')
        \<and> (h' ! r) ''x-apikey'' = Some ''u1''
        \<and> (h' ! r) ''x-trace'' = Some ''t''
        \<and> (h' ! 0) ''x-apikey'' = Some ''other''"
    by (intro exI conjI)
  with v d show ?thesis by (intro conjI)
qed

section \<open>Received frames: acknowledgement and raw wrapping\<close>

lemma send_raw_message_active:
  assumes "uuid \<in> active_connections d"
  shows "send_calls (snd (send_raw_message env uuid m d)) = send_calls d @ [(uuid, m)]"
    and "event_queue (snd (send_raw_message env uuid m d)) = event_queue d"
    and "connections (snd (send_raw_message env uuid m d)) = connections d"
    and "active_connections (snd (send_raw_message env uuid m d)) = active_connections d"
  using assms by (auto simp: send_raw_message_def Let_def split: send_outcome.splits)

lemma send_raw_message_inactive:
  assumes "uuid \<notin> active_connections d"
  shows "send_raw_message env uuid m d
           = (False, d\<lparr>log_lines := log_lines d @ [''connection not active'']\<rparr>)"
  using assms by (simp add: send_raw_message_def)

lemma send_raw_message_failure_logged:
  assumes "uuid \<in> active_connections d" "ws_send env uuid (dumps env m) \<noteq> Sent"
  shows "\<not> fst (send_raw_message env uuid m d)"
    and "\<exists>line. log_lines (snd (send_raw_message env uuid m d)) = log_lines d @ [line]"
  using assms by (auto simp: send_raw_message_def Let_def split: send_outcome.splits)

lemma send_event_send_calls: "send_calls (send_event t uuid body err d) = send_calls d"
  by (simp add: send_event_def split: option.splits)

lemma send_event_queue_cong:
  "event_queue d1 = event_queue d2 \<Longrightarrow> connections d1 = connections d2 \<Longrightarrow>
   event_queue (send_event t uuid body err d1) = event_queue (send_event t uuid body err d2)"
  by (simp add: send_event_def split: option.splits)

lemma ack_message_shape:
  "json_get (ack_message env uuid m) ''type'' = JStr ''sys_ack''"
  "json_get (json_get (ack_message env uuid m) ''meta'') ''acked_msg_id'' = m"
  by (simp_all add: ack_message_def json_get_def dict_get_def)

lemma handle_message_ack:
  assumes "uuid \<in> active_connections d" "parse_frame env f = Some (JObj kvs)"
    "truthy (dict_get kvs ''msg_id'')" "dict_get kvs ''type'' \<noteq> JStr ''sys_ack''"
  shows "send_calls (handle_message env uuid f d)
           = send_calls d @ [(uuid, ack_message env uuid (dict_get kvs ''msg_id''))]"
  using assms
  by (simp add: handle_message_def Let_def send_event_send_calls send_ack_def
      send_raw_message_active)

lemma handle_message_no_ack:
  assumes "\<not> ack_due (parse_frame env f)"
  shows "send_calls (handle_message env uuid f d) = send_calls d"
  using assms
  by (auto simp: handle_message_def Let_def send_event_send_calls ack_due_def
      split: option.splits json.splits)

lemma handle_message_event:
  assumes "uuid \<in> active_connections d" "parse_frame env f = Some (JObj kvs)"
  shows "event_queue (handle_message env uuid f d)
           = event_queue (send_event MESSAGE uuid (Some (JObj kvs)) None d)"
  using assms
  by (auto simp: handle_message_def Let_def send_ack_def send_raw_message_active
      intro!: send_event_queue_cong)

text \<open>
  On a connection that is no longer in \<open>active_connections\<close> nothing is handed to a
  socket, whatever the frame carries.
\<close>

lemma handle_message_inactive:
  assumes "uuid \<notin> active_connections d"
  shows "send_calls (handle_message env uuid f d) = send_calls d"
  using assms
  by (auto simp: handle_message_def Let_def send_event_send_calls send_ack_def
      send_raw_message_inactive split: option.splits json.splits)

text \<open>
  C7 (amended). For a frame received on a connection that is still in
  \<open>active_connections\<close>, the driver hands exactly one acknowledgement to the socket
  if the parsed data carries a non-empty message id and its type is not \<open>sys_ack\<close>,
  and none otherwise. The acknowledgement has type \<open>sys_ack\<close> and its
  \<open>meta.acked_msg_id\<close> is the received message id. Whether or not the write
  succeeds, there is one write and no second attempt, a failed write leaves a line in
  the log, and the message event is queued as it would be without the
  acknowledgement.
\<close>

theorem ack_emitted_iff_msg_id:
  assumes "uuid \<in> active_connections d"
  shows "(ack_due (parse_frame env f) \<longrightarrow>
            (\<exists>kvs. parse_frame env f = Some (JObj kvs)
               \<and> send_calls (handle_message env uuid f d)
                   = send_calls d @ [(uuid, ack_message env uuid (dict_get kvs ''msg_id''))]
               \<and> json_get (ack_message env uuid (dict_get kvs ''msg_id'')) ''type''
                   = JStr ''sys_ack''
               \<and> json_get (json_get (ack_message env uuid (dict_get kvs ''msg_id'')) ''meta'')
                    ''acked_msg_id'' = dict_get kvs ''msg_id''
               \<and> event_queue (handle_message env uuid f d)
                   = event_queue (send_event MESSAGE uuid (Some (JObj kvs)) None d)
               \<and> (ws_send env uuid (dumps env (ack_message env uuid (dict_get kvs ''msg_id'')))
                     \<noteq> Sent
                   \<longrightarrow> (\<exists>line. log_lines (send_ack env uuid (dict_get kvs ''msg_id'') d)
                                  = log_lines d @ [line]))))
       \<and> (\<not> ack_due (parse_frame env f) \<longrightarrow>
            send_calls (handle_message env uuid f d) = send_calls d)"
proof (intro conjI impI)
  assume "ack_due (parse_frame env f)"
  then obtain kvs where k: "parse_frame env f = Some (JObj kvs)"
      "truthy (dict_get kvs ''msg_id'')" "dict_get kvs ''type'' \<noteq> JStr ''sys_ack''"
    unfolding ack_due_def by blast
  have l: "ws_send env uuid (dumps env (ack_message env uuid (dict_get kvs ''msg_id''))) \<noteq> Sent
           \<longrightarrow> (\<exists>line. log_lines (send_ack env uuid (dict_get kvs ''msg_id'') d)
                          = log_lines d @ [line])"
    unfolding send_ack_def using send_raw_message_failure_logged(2) [OF assms] by blast
  show "\<exists>kvs. parse_frame env f = Some (JObj kvs)
               \<and> send_calls (handle_message env uuid f d)
                   = send_calls d @ [(uuid, ack_message env uuid (dict_get kvs ''msg_id''))]
               \<and> json_get (ack_message env uuid (dict_get kvs ''msg_id'')) ''type''
                   = JStr ''sys_ack''
               \<and> json_get (json_get (ack_message env uuid (dict_get kvs ''msg_id'')) ''meta'')
                    ''acked_msg_id'' = dict_get kvs ''msg_id''
               \<and> event_queue (handle_message env uuid f d)
                   = event_queue (send_event MESSAGE uuid (Some (JObj kvs)) None d)
               \<and> (ws_send env uuid (dumps env (ack_message env uuid (dict_get kvs ''msg_id'')))
                     \<noteq> Sent
                   \<longrightarrow> (\<exists>line. log_lines (send_ack env uuid (dict_get kvs ''msg_id'') d)
                                  = log_lines d @ [line]))"
    using k(1) handle_message_ack [OF assms k] ack_message_shape
      handle_message_event [OF assms k(1)] l
    by (intro exI [of _ kvs] conjI)
next
  assume "\<not> ack_due (parse_frame env f)"
  then show "send_calls (handle_message env uuid f d) = send_calls d"
    by (rule handle_message_no_ack)
qed

lemma example_driver_c1:
  "''c1'' \<in> active_connections example_driver"
  "driver_running example_driver"
  "map_of (connections example_driver) ''c1'' = Some example_connection"
  "event_queue example_driver = Some []"
  "send_calls example_driver = []"
  by (simp_all add: example_driver_def)

text \<open>
  C7 as stated, for every received frame, fails. The business layer's \<open>disconnect\<close>
  takes the connection out of \<open>active_connections\<close>; the loop of the example
  driver is not a stored task, so nothing is cancelled and the entry in
  \<open>connections\<close> stays. The next frame that carries a message id passes the guard
  of the read loop and is handled, its message event is queued, but no
  acknowledgement is handed to a socket.
\<close>

theorem ack_not_emitted_after_disconnect:
  "fst (disconnect ''c1'' example_driver)
   \<and> cancelled_tasks (snd (disconnect ''c1'' example_driver)) = {}
   \<and> ack_due (parse_frame example_env example_frame)
   \<and> read_loop_step example_env ''c1'' example_frame (snd (disconnect ''c1'' example_driver))
       = Some (handle_message example_env ''c1'' example_frame
                 (snd (disconnect ''c1'' example_driver)))
   \<and> send_calls (handle_message example_env ''c1'' example_frame
                    (snd (disconnect ''c1'' example_driver))) = []
   \<and> event_queue (handle_message example_env ''c1'' example_frame
                     (snd (disconnect ''c1'' example_driver)))
       = Some [\<lparr> ev_type = MESSAGE, ev_uuid = ''c1'', ev_config = example_connection,
                  ev_payload = Some (JObj [(''msg_id'', JStr ''m1''),
                                           (''type'', JStr ''sys_std'')]),
                  ev_error = None \<rparr>]"
proof -
  have d: "disconnect ''c1'' example_driver
             = (True, example_driver
                  \<lparr>connection_states := (connection_states example_driver)
                                          (''c1'' \<mapsto> ''disconnected''),
                   active_connections := {''c0''}\<rparr>)"
    by (auto simp: disconnect_def example_driver_def Let_def)
  have p: "parse_frame example_env example_frame
             = Some (JObj [(''msg_id'', JStr ''m1''), (''type'', JStr ''sys_std'')])"
    by (simp add: parse_frame_def example_frame_def)
  have due: "ack_due (parse_frame example_env example_frame)"
    unfolding p ack_due_def by (simp add: dict_get_def)
  have c1: "fst (disconnect ''c1'' example_driver)" unfolding d by simp
  have c2: "cancelled_tasks (snd (disconnect ''c1'' example_driver)) = {}"
    unfolding d by (simp add: example_driver_def)
  have c3: "read_loop_step example_env ''c1'' example_frame
              (snd (disconnect ''c1'' example_driver))
            = Some (handle_message example_env ''c1'' example_frame
                      (snd (disconnect ''c1'' example_driver)))"
    unfolding d by (simp add: read_loop_step_def example_driver_def)
  have c4: "send_calls (handle_message example_env ''c1'' example_frame
                          (snd (disconnect ''c1'' example_driver))) = []"
    unfolding d by (simp add: handle_message_inactive example_driver_def)
  have c5: "event_queue (handle_message example_env ''c1'' example_frame
                           (snd (disconnect ''c1'' example_driver)))
            = Some [\<lparr> ev_type = MESSAGE, ev_uuid = ''c1'', ev_config = example_connection,
                       ev_payload = Some (JObj [(''msg_id'', JStr ''m1''),
                                                (''type'', JStr ''sys_std'')]),
                       ev_error = None \<rparr>]"
    unfolding d
    by (simp add: handle_message_def p Let_def dict_get_def send_ack_def
        send_raw_message_def send_event_def example_driver_def)
  show ?thesis using c1 c2 due c3 c4 c5 by (intro conjI)
qed

theorem ack_emitted_iff_msg_id_witness:
  "''c1'' \<in> active_connections example_driver
   \<and> ack_due (parse_frame example_env example_frame)
   \<and> send_calls (handle_message example_env ''c1'' example_frame example_driver)
       = [(''c1'', ack_message example_env ''c1'' (JStr ''m1''))]
   \<and> \<not> ack_due (parse_frame example_env (Text ''oops''))
   \<and> send_calls (handle_message example_env ''c1'' (Text ''oops'') example_driver) = []"
proof -
  note a = example_driver_c1(1)
  have p: "parse_frame example_env example_frame
             = Some (JObj [(''msg_id'', JStr ''m1''), (''type'', JStr ''sys_std'')])"
    by (simp add: parse_frame_def example_frame_def)
  have due: "ack_due (parse_frame example_env example_frame)"
    unfolding p ack_due_def by (simp add: dict_get_def)
  have q: "parse_frame example_env (Text ''oops'')
             = Some (JObj [(''raw_message'', JStr ''oops'')])"
    by (simp add: parse_frame_def example_env_def)
  have nodue: "\<not> ack_due (parse_frame example_env (Text ''oops''))"
    unfolding q ack_due_def by (simp add: dict_get_def)
  have "ack_due (parse_frame example_env example_frame) \<longrightarrow>
          (\<exists>kvs. parse_frame example_env example_frame = Some (JObj kvs)
             \<and> send_calls (handle_message example_env ''c1'' example_frame example_driver)
                 = send_calls example_driver
                   @ [(''c1'', ack_message example_env ''c1'' (dict_get kvs ''msg_id''))]
             \<and> json_get (ack_message example_env ''c1'' (dict_get kvs ''msg_id'')) ''type''
                 = JStr ''sys_ack''
             \<and> json_get (json_get (ack_message example_env ''c1'' (dict_get kvs ''msg_id''))
                    ''meta'') ''acked_msg_id'' = dict_get kvs ''msg_id''
             \<and> event_queue (handle_message example_env ''c1'' example_frame example_driver)
                 = event_queue (send_event MESSAGE ''c1'' (Some (JObj kvs)) None example_driver)
             \<and> (ws_send example_env ''c1''
                   (dumps example_env (ack_message example_env ''c1'' (dict_get kvs ''msg_id'')))
                     \<noteq> Sent
                 \<longrightarrow> (\<exists>line. log_lines (send_ack example_env ''c1'' (dict_get kvs ''msg_id'')
                                          example_driver)
                                = log_lines example_driver @ [line])))"
    using ack_emitted_iff_msg_id [OF a, of example_env example_frame] by (rule conjunct1)
  from this due have "\<exists>kvs. parse_frame example_env example_frame = Some (JObj kvs)
             \<and> send_calls (handle_message example_env ''c1'' example_frame example_driver)
                 = send_calls example_driver
                   @ [(''c1'', ack_message example_env ''c1'' (dict_get kvs ''msg_id''))]
             \<and> json_get (ack_message example_env ''c1'' (dict_get kvs ''msg_id'')) ''type''
                 = JStr ''sys_ack''
             \<and> json_get (json_get (ack_message example_env ''c1'' (dict_get kvs ''msg_id''))
                    ''meta'') ''acked_msg_id'' = dict_get kvs ''msg_id''
             \<and> event_queue (handle_message example_env ''c1'' example_frame example_driver)
                 = event_queue (send_event MESSAGE ''c1'' (Some (JObj kvs)) None example_driver)
             \<and> (ws_send example_env ''c1''
                   (dumps example_env (ack_message example_env ''c1'' (dict_get kvs ''msg_id'')))
                     \<noteq> Sent
                 \<longrightarrow> (\<exists>line. log_lines (send_ack example_env ''c1'' (dict_get kvs ''msg_id'')
                                          example_driver)
                                = log_lines example_driver @ [line]))"
    by (rule mp)
  then obtain kvs where k: "parse_frame example_env example_frame = Some (JObj kvs)"
    "send_calls (handle_message example_env ''c1'' example_frame example_driver)
       = send_calls example_driver @ [(''c1'', ack_message example_env ''c1'' (dict_get kvs ''msg_id''))]"
    by (elim exE conjE) (rule that)
  from k(1) p have "kvs = [(''msg_id'', JStr ''m1''), (''type'', JStr ''sys_std'')]" by simp
  then have m: "dict_get kvs ''msg_id'' = JStr ''m1''" by (simp add: dict_get_def)
  have s1: "send_calls (handle_message example_env ''c1'' example_frame example_driver)
       = [(''c1'', ack_message example_env ''c1'' (JStr ''m1''))]"
    using k(2) by (simp add: m example_driver_c1(5))
  have s2: "send_calls (handle_message example_env ''c1'' (Text ''oops'') example_driver) = []"
    using ack_emitted_iff_msg_id [OF a, of example_env "Text ''oops''"] nodue
    by (simp add: example_driver_c1(5))
  show ?thesis using a due s1 nodue s2 by (intro conjI)
qed

text \<open>
  C9 (amended). A text frame on which \<open>json.loads\<close> raises \<open>JSONDecodeError\<close>,
  received by the read loop of a running driver whose event queue is set and whose
  connection is still in the table, is neither dropped nor an error: the frame is
  handled, its data is the dictionary \<open>{"raw_message": text}\<close>, and a message event
  with that payload is appended to the event queue. No acknowledgement is written.
\<close>

theorem unparsable_text_frame_is_wrapped:
  assumes "loads env s = JSONDecodeError" "driver_running d"
    "map_of (connections d) uuid = Some config" "event_queue d = Some q"
  shows "read_loop_step env uuid (Text s) d = Some (handle_message env uuid (Text s) d)
       \<and> parse_frame env (Text s) = Some (JObj [(''raw_message'', JStr s)])
       \<and> event_queue (handle_message env uuid (Text s) d)
           = Some (q @ [\<lparr> ev_type = MESSAGE, ev_uuid = uuid, ev_config = config,
                          ev_payload = Some (JObj [(''raw_message'', JStr s)]),
                          ev_error = None \<rparr>])
       \<and> send_calls (handle_message env uuid (Text s) d) = send_calls d"
  using assms
  by (simp add: read_loop_step_def handle_message_def parse_frame_def send_event_def
      dict_get_def Let_def)

text \<open>
  C9 as stated, for every text frame that fails to parse, fails. On the text of a
  hundred thousand opening brackets \<open>json.loads\<close> raises \<open>RecursionError\<close>, which
  the handler of \<open>JSONDecodeError\<close> does not catch: the read loop goes on, but the
  frame is dropped with a line in the log, and no event reaches the queue.
\<close>

theorem unparsable_text_frame_dropped:
  "loads recursion_env deep_text = OtherError
   \<and> driver_running example_driver
   \<and> map_of (connections example_driver) ''c1'' = Some example_connection
   \<and> read_loop_step recursion_env ''c1'' (Text deep_text) example_driver
       = Some (handle_message recursion_env ''c1'' (Text deep_text) example_driver)
   \<and> parse_frame recursion_env (Text deep_text) = None
   \<and> event_queue (handle_message recursion_env ''c1'' (Text deep_text) example_driver)
       = Some []
   \<and> log_lines (handle_message recursion_env ''c1'' (Text deep_text) example_driver)
       = [''message handling error'']"
proof -
  have l: "loads recursion_env deep_text = OtherError"
    by (simp add: recursion_env_def)
  have p: "parse_frame recursion_env (Text deep_text) = None"
    by (simp add: parse_frame_def l)
  have r: "read_loop_step recursion_env ''c1'' (Text deep_text) example_driver
             = Some (handle_message recursion_env ''c1'' (Text deep_text) example_driver)"
    by (simp add: read_loop_step_def example_driver_c1)
  have e: "event_queue (handle_message recursion_env ''c1'' (Text deep_text) example_driver)
             = Some []"
    by (simp add: handle_message_def p Let_def example_driver_c1)
  have g: "log_lines (handle_message recursion_env ''c1'' (Text deep_text) example_driver)
             = [''message handling error'']"
    by (simp add: handle_message_def p Let_def example_driver_def)
  show ?thesis using l example_driver_c1(2,3) r p e g by (intro conjI)
qed

theorem unparsable_text_frame_is_wrapped_witness:
  "loads example_env ''oops'' = JSONDecodeError
   \<and> driver_running example_driver
   \<and> map_of (connections example_driver) ''c1'' = Some example_connection
   \<and> event_queue example_driver = Some []
   \<and> read_loop_step example_env ''c1'' (Text ''oops'') example_driver
       = Some (handle_message example_env ''c1'' (Text ''oops'') example_driver)
   \<and> event_queue (handle_message example_env ''c1'' (Text ''oops'') example_driver)
       = Some [\<lparr> ev_type = MESSAGE, ev_uuid = ''c1'', ev_config = example_connection,
                  ev_payload = Some (JObj [(''raw_message'', JStr ''oops'')]),
                  ev_error = None \<rparr>]"
proof -
  have l: "loads example_env ''oops'' = JSONDecodeError" by (simp add: example_env_def)
  show ?thesis
    using l example_driver_c1(2,3,4)
      unparsable_text_frame_is_wrapped [OF l example_driver_c1(2) example_driver_c1(3)
        example_driver_c1(4)]
    by simp
qed

section \<open>Reconnecting\<close>

lemma attempt_connection_failed:
  "loop_attempts (attempt_connection c ConnectFailed st) = loop_attempts st"
  "loop_delay (attempt_connection c ConnectFailed st) = loop_delay st"
  "sleeps (attempt_connection c ConnectFailed st) = sleeps st"
  "connects (attempt_connection c ConnectFailed st) = connects st + 1"
  "state (attempt_connection c ConnectFailed st) = ''disconnected''"
  by (simp_all add: attempt_connection_def Let_def)

lemma attempt_connection_established:
  assumes "established a"
  shows "loop_attempts (attempt_connection c a st) = 0"
    and "loop_delay (attempt_connection c a st) = reconnect_delay c"
    and "sleeps (attempt_connection c a st) = sleeps st"
    and "connects (attempt_connection c a st) = connects st + 1"
  using assms by (simp_all add: attempt_connection_def Let_def)

lemma attempt_connection_common:
  "sleeps (attempt_connection c a st) = sleeps st"
  "connects (attempt_connection c a st) = connects st + 1"
  "state (attempt_connection c a st) = ''disconnected''"
  by (simp_all add: attempt_connection_def Let_def)

text \<open>One undisturbed iteration that goes on to reconnect.\<close>

lemma loop_step_reconnect:
  assumes "undisturbed e"
    and "loop_attempts (attempt_connection c (outcome e) st) < max_reconnect_attempts c"
  shows "connection_loop_from c (e # es) st =
           connection_loop_from c es
             ((attempt_connection c (outcome e) st)
                \<lparr>loop_attempts := loop_attempts (attempt_connection c (outcome e) st) + 1,
                 sleeps := sleeps st @ [(loop_delay (attempt_connection c (outcome e) st),
                                         time_waited (loop_delay (attempt_connection c (outcome e) st)))],
                 loop_delay := min (max_reconnect_delay c)
                                 (loop_delay (attempt_connection c (outcome e) st) * 2)\<rparr>)"
  using assms
  by (simp add: undisturbed_def loop_condition_def should_reconnect_def Let_def
      attempt_connection_common)

lemma loop_step_exhausted:
  assumes "undisturbed e"
    and "\<not> loop_attempts (attempt_connection c (outcome e) st) < max_reconnect_attempts c"
  shows "connection_loop_from c (e # es) st =
           (Exited, (attempt_connection c (outcome e) st)\<lparr>state := ''error''\<rparr>)"
  using assms
  by (simp add: undisturbed_def loop_condition_def should_reconnect_def Let_def)

lemma spec_delay_shift: "spec_delay (min m (2 * d)) m i = spec_delay d m (Suc i)"
  by (induction i) simp_all


lemma failing_outcome: "failing e \<Longrightarrow> undisturbed e \<and> outcome e = ConnectFailed"
  by (simp add: failing_def)

text \<open>A run of failed connects while attempts remain: the loop is still going.\<close>

lemma failing_run:
  assumes "\<forall>e \<in> set fs. failing e"
    and "loop_attempts st + int (length fs) \<le> max_reconnect_attempts c"
  shows "fst (connection_loop_from c fs st) = Pending
       \<and> sleeps (snd (connection_loop_from c fs st)) =
           sleeps st @ map (\<lambda>i. (spec_delay (loop_delay st) (max_reconnect_delay c) i,
                                  time_waited (spec_delay (loop_delay st) (max_reconnect_delay c) i)))
                         [0..<length fs]
       \<and> loop_delay (snd (connection_loop_from c fs st)) =
           spec_delay (loop_delay st) (max_reconnect_delay c) (length fs)
       \<and> loop_attempts (snd (connection_loop_from c fs st)) = loop_attempts st + int (length fs)
       \<and> connects (snd (connection_loop_from c fs st)) = connects st + length fs"
  using assms
proof (induction fs arbitrary: st)
  case Nil
  then show ?case by simp
next
  case (Cons e fs)
  let ?st1 = "attempt_connection c (outcome e) st"
  let ?st2 = "?st1\<lparr>loop_attempts := loop_attempts ?st1 + 1,
                    sleeps := sleeps st @ [(loop_delay ?st1, time_waited (loop_delay ?st1))],
                    loop_delay := min (max_reconnect_delay c) (loop_delay ?st1 * 2)\<rparr>"
  from Cons.prems(1) have e: "undisturbed e" "outcome e = ConnectFailed"
    by (simp_all add: failing_def)
  have a: "loop_attempts ?st1 = loop_attempts st" "loop_delay ?st1 = loop_delay st"
    "connects ?st1 = connects st + 1"
    by (simp_all add: e(2) attempt_connection_failed)
  from Cons.prems(2) have lt: "loop_attempts ?st1 < max_reconnect_attempts c"
    by (simp add: a)
  have step: "connection_loop_from c (e # fs) st = connection_loop_from c fs ?st2"
    by (rule loop_step_reconnect [OF e(1) lt])
  have p1: "\<forall>e \<in> set fs. failing e" using Cons.prems(1) by simp
  have p2: "loop_attempts ?st2 + int (length fs) \<le> max_reconnect_attempts c"
    using Cons.prems(2) by (simp add: a)
  note ih = Cons.IH [OF p1 p2]
  have v: "loop_delay ?st2 = min (max_reconnect_delay c) (2 * loop_delay st)"
    "sleeps ?st2 = sleeps st @ [(loop_delay st, time_waited (loop_delay st))]"
    "loop_attempts ?st2 = loop_attempts st + 1" "connects ?st2 = connects st + 1"
    by (simp_all add: a mult.commute)
  let ?m = "max_reconnect_delay c"
  let ?F = "\<lambda>i. (spec_delay (loop_delay st) ?m i, time_waited (spec_delay (loop_delay st) ?m i))"
  have g: "spec_delay (loop_delay ?st2) ?m i = spec_delay (loop_delay st) ?m (Suc i)" for i
    unfolding v(1) by (rule spec_delay_shift)
  have m: "map ?F [0..<Suc (length fs)] = ?F 0 # map (\<lambda>i. ?F (Suc i)) [0..<length fs]"
    by (rule map_upt_Suc)
  have s: "sleeps (snd (connection_loop_from c fs ?st2)) = sleeps st @ map ?F [0..<Suc (length fs)]"
    using ih unfolding m g v(2) by simp
  have d: "loop_delay (snd (connection_loop_from c fs ?st2))
             = spec_delay (loop_delay st) ?m (Suc (length fs))"
    using ih unfolding g by blast
  have t: "loop_attempts (snd (connection_loop_from c fs ?st2))
             = loop_attempts st + int (Suc (length fs))"
    using ih unfolding v(3) by simp
  have n: "connects (snd (connection_loop_from c fs ?st2)) = connects st + Suc (length fs)"
    using ih unfolding v(4) by simp
  have p: "fst (connection_loop_from c fs ?st2) = Pending" using ih by blast
  show ?case
    unfolding step length_Cons using p s d t n by (intro conjI)
qed


text \<open>A run of failed connects that uses up the attempts: the loop ends in \<open>error\<close>.\<close>

lemma failing_run_exhausts:
  assumes "\<forall>e \<in> set fs. failing e"
    and "loop_attempts st \<le> max_reconnect_attempts c"
    and "length fs = Suc (nat (max_reconnect_attempts c - loop_attempts st))"
  shows "connection_loop_from c (fs @ rest) st = connection_loop_from c fs st
       \<and> fst (connection_loop_from c fs st) = Exited
       \<and> state (snd (connection_loop_from c fs st)) = ''error''
       \<and> connects (snd (connection_loop_from c fs st)) = connects st + length fs
       \<and> length (sleeps (snd (connection_loop_from c fs st))) = length (sleeps st) + length fs - 1"
  using assms
proof (induction fs arbitrary: st)
  case Nil
  then show ?case by simp
next
  case (Cons e fs)
  let ?st1 = "attempt_connection c (outcome e) st"
  let ?st2 = "?st1\<lparr>loop_attempts := loop_attempts ?st1 + 1,
                    sleeps := sleeps st @ [(loop_delay ?st1, time_waited (loop_delay ?st1))],
                    loop_delay := min (max_reconnect_delay c) (loop_delay ?st1 * 2)\<rparr>"
  from Cons.prems(1) have e: "undisturbed e" "outcome e = ConnectFailed"
    by (simp_all add: failing_def)
  have a: "loop_attempts ?st1 = loop_attempts st" "connects ?st1 = connects st + 1"
    "sleeps ?st1 = sleeps st"
    by (simp_all add: e(2) attempt_connection_failed)
  show ?case
  proof (cases "loop_attempts st < max_reconnect_attempts c")
    case True
    then have lt: "loop_attempts ?st1 < max_reconnect_attempts c" by (simp add: a)
    have step: "connection_loop_from c (e # es) st = connection_loop_from c es ?st2" for es
      by (rule loop_step_reconnect [OF e(1) lt])
    have p1: "\<forall>e \<in> set fs. failing e" using Cons.prems(1) by simp
    have v: "loop_attempts ?st2 = loop_attempts st + 1" "connects ?st2 = connects st + 1"
      "length (sleeps ?st2) = length (sleeps st) + 1"
      by (simp_all add: a)
    have p2: "loop_attempts ?st2 \<le> max_reconnect_attempts c" using True by (simp add: v)
    have p3: "length fs = Suc (nat (max_reconnect_attempts c - loop_attempts ?st2))"
      using Cons.prems(3) True by (simp add: v)
    note ih = Cons.IH [OF p1 p2 p3]
    have "length fs \<ge> 1" using p3 by simp
    then show ?thesis
      using ih unfolding append_Cons step v by simp
  next
    case False
    then have nlt: "\<not> loop_attempts ?st1 < max_reconnect_attempts c" by (simp add: a)
    have step: "connection_loop_from c (e # es) st = (Exited, ?st1\<lparr>state := ''error''\<rparr>)" for es
      by (rule loop_step_exhausted [OF e(1) nlt])
    from False Cons.prems(2,3) have "fs = []" by simp
    then show ?thesis unfolding append_Cons step by (simp add: a)
  qed
qed

text \<open>
  C4 (amended). In a run of consecutive failed connects that starts the loop, the delay
  asked for before the \<open>i\<close>-th reconnect attempt follows \<open>d[0] = d0\<close>,
  \<open>d[i+1] = min(dmax, 2 * d[i])\<close>; the time actually waited is that delay cut off at
  the 30 seconds of the wait's timeout (and zero for a delay that is not positive).
  Every successful connect resets the delay to \<open>d0\<close> and the attempt counter to zero,
  so that the failed connects following an established session see the same sequence
  from its start.
\<close>

theorem reconnect_delay_sequence:
  assumes "\<forall>e \<in> set fs. failing e"
    and "int (length fs) \<le> max_reconnect_attempts config"
  shows "map fst (sleeps (snd (connection_loop config fs)))
           = map (spec_delay (reconnect_delay config) (max_reconnect_delay config)) [0..<length fs]
       \<and> map snd (sleeps (snd (connection_loop config fs)))
           = map (\<lambda>i. time_waited (spec_delay (reconnect_delay config)
                                      (max_reconnect_delay config) i)) [0..<length fs]
       \<and> (\<forall>a st. established a \<longrightarrow>
             loop_delay (attempt_connection config a st) = reconnect_delay config
             \<and> loop_attempts (attempt_connection config a st) = 0)
       \<and> (\<forall>e0 st. undisturbed e0 \<and> established (outcome e0)
                    \<and> int (length fs) < max_reconnect_attempts config \<longrightarrow>
             sleeps (snd (connection_loop_from config (e0 # fs) st))
               = sleeps st
                 @ map (\<lambda>i. (spec_delay (reconnect_delay config) (max_reconnect_delay config) i,
                             time_waited (spec_delay (reconnect_delay config)
                                            (max_reconnect_delay config) i)))
                     [0..<Suc (length fs)])"
proof (intro conjI allI impI)
  have s: "loop_attempts (loop_start config) + int (length fs) \<le> max_reconnect_attempts config"
    using assms(2) by (simp add: loop_start_def)
  note r = failing_run [OF assms(1) s]
  have d: "loop_delay (loop_start config) = reconnect_delay config"
    "sleeps (loop_start config) = []"
    by (simp_all add: loop_start_def)
  from r have sl: "sleeps (snd (connection_loop config fs)) =
      map (\<lambda>i. (spec_delay (reconnect_delay config) (max_reconnect_delay config) i,
                 time_waited (spec_delay (reconnect_delay config) (max_reconnect_delay config) i)))
        [0..<length fs]"
    unfolding connection_loop_def d by simp
  show "map fst (sleeps (snd (connection_loop config fs)))
           = map (spec_delay (reconnect_delay config) (max_reconnect_delay config)) [0..<length fs]"
    unfolding sl by (simp add: comp_def)
  show "map snd (sleeps (snd (connection_loop config fs)))
           = map (\<lambda>i. time_waited (spec_delay (reconnect_delay config)
                                      (max_reconnect_delay config) i)) [0..<length fs]"
    unfolding sl by (simp add: comp_def)
next
  fix a st assume "established a"
  then show "loop_delay (attempt_connection config a st) = reconnect_delay config"
    by (rule attempt_connection_established(2))
next
  fix a st assume "established a"
  then show "loop_attempts (attempt_connection config a st) = 0"
    by (rule attempt_connection_established(1))
next
  fix e0 st
  assume h: "undisturbed e0 \<and> established (outcome e0)
             \<and> int (length fs) < max_reconnect_attempts config"
  let ?m = "max_reconnect_delay config"
  let ?st1 = "attempt_connection config (outcome e0) st"
  let ?st2 = "?st1\<lparr>loop_attempts := loop_attempts ?st1 + 1,
                    sleeps := sleeps st @ [(loop_delay ?st1, time_waited (loop_delay ?st1))],
                    loop_delay := min ?m (loop_delay ?st1 * 2)\<rparr>"
  let ?F = "\<lambda>i. (spec_delay (reconnect_delay config) ?m i,
                  time_waited (spec_delay (reconnect_delay config) ?m i))"
  from h have e: "undisturbed e0" "established (outcome e0)" by simp_all
  have a: "loop_attempts ?st1 = 0" "loop_delay ?st1 = reconnect_delay config"
    using e(2) by (simp_all add: attempt_connection_established)
  from h have lt: "loop_attempts ?st1 < max_reconnect_attempts config" by (simp add: a)
  have step: "connection_loop_from config (e0 # fs) st = connection_loop_from config fs ?st2"
    by (rule loop_step_reconnect [OF e(1) lt])
  have v: "loop_delay ?st2 = min ?m (2 * reconnect_delay config)"
    "sleeps ?st2 = sleeps st @ [?F 0]" "loop_attempts ?st2 = 1"
    by (simp_all add: a mult.commute)
  have p2: "loop_attempts ?st2 + int (length fs) \<le> max_reconnect_attempts config"
    using h by (simp add: v)
  note r = failing_run [OF assms(1) p2]
  have g: "spec_delay (loop_delay ?st2) ?m i = spec_delay (reconnect_delay config) ?m (Suc i)" for i
    unfolding v(1) by (rule spec_delay_shift)
  have m: "map ?F [0..<Suc (length fs)] = ?F 0 # map (\<lambda>i. ?F (Suc i)) [0..<length fs]"
    by (rule map_upt_Suc)
  show "sleeps (snd (connection_loop_from config (e0 # fs) st))
          = sleeps st @ map ?F [0..<Suc (length fs)]"
    unfolding step using r unfolding m g v(2) by simp
qed


lemma failing_env_failing: "failing failing_env"
  by (simp add: failing_def undisturbed_def loop_condition_def failing_env_def steady_def)

lemmas loop_eval =
  connection_loop_def loop_start_def failing_env_def steady_def loop_condition_def
  should_reconnect_def attempt_connection_def time_waited_def Let_def

text \<open>
  C4 as stated says that the delay waited is \<open>d[i]\<close>. With \<open>d0 = 40\<close> and
  \<open>dmax = 100\<close> the first wait asks for 40 seconds and ends after 30, when the
  timeout of \<open>asyncio.wait_for\<close> expires.
\<close>

theorem reconnect_wait_counterexample:
  "sleeps (snd (connection_loop slow_connection [failing_env])) = [(40, 30)]
   \<and> spec_delay (reconnect_delay slow_connection) (max_reconnect_delay slow_connection) 0 = 40
   \<and> map snd (sleeps (snd (connection_loop slow_connection [failing_env])))
       \<noteq> map (spec_delay (reconnect_delay slow_connection) (max_reconnect_delay slow_connection))
            [0..<1]"
  by (simp add: loop_eval slow_connection_def example_connection_def)

theorem reconnect_delay_sequence_witness:
  "failing failing_env
   \<and> int (length [failing_env, failing_env, failing_env]) \<le> max_reconnect_attempts example_connection
   \<and> map fst (sleeps (snd (connection_loop example_connection
                              [failing_env, failing_env, failing_env]))) = [1, 2, 4]
   \<and> map snd (sleeps (snd (connection_loop example_connection
                              [failing_env, failing_env, failing_env]))) = [1, 2, 4]"
proof -
  have f: "\<forall>e \<in> set [failing_env, failing_env, failing_env]. failing e"
    by (simp add: failing_env_failing)
  have n: "int (length [failing_env, failing_env, failing_env])
             \<le> max_reconnect_attempts example_connection"
    by (simp add: example_connection_def)
  have u: "[0..<length [failing_env, failing_env, failing_env]] = [0, Suc 0, Suc (Suc 0)]"
    by (simp add: upt_rec)
  have c: "reconnect_delay example_connection = 1" "max_reconnect_delay example_connection = 30"
    by (simp_all add: example_connection_def)
  show ?thesis
    using failing_env_failing n reconnect_delay_sequence [OF f n]
    unfolding u c by (simp add: time_waited_def)
qed

text \<open>
  C5 (amended). Take an iteration that nothing disturbs and that either starts the loop
  (the counter is zero) or had an established session, and let it be followed by
  \<open>max_reconnect_attempts\<close> reconnect attempts that all fail, with the driver still
  running, the connection not removed and no shutdown signal. Then the loop exits with
  the state \<open>error\<close>, having called connect once for the first iteration and once per
  reconnect attempt, and whatever the environment would offer afterwards is not looked
  at: there is no further attempt. From a cold start this is after
  \<open>max_reconnect_attempts + 1\<close> consecutive connect failures.
\<close>

theorem reconnect_attempts_exhausted:
  assumes "undisturbed e0"
    and "established (outcome e0) \<or> loop_attempts st = 0"
    and "\<forall>e \<in> set fs. failing e"
    and "length fs = nat (max_reconnect_attempts config)"
  shows "connection_loop_from config (e0 # fs @ rest) st = connection_loop_from config (e0 # fs) st
       \<and> fst (connection_loop_from config (e0 # fs) st) = Exited
       \<and> state (snd (connection_loop_from config (e0 # fs) st)) = ''error''
       \<and> connects (snd (connection_loop_from config (e0 # fs) st)) = connects st + Suc (length fs)"
proof -
  let ?st1 = "attempt_connection config (outcome e0) st"
  let ?st2 = "?st1\<lparr>loop_attempts := loop_attempts ?st1 + 1,
                    sleeps := sleeps st @ [(loop_delay ?st1, time_waited (loop_delay ?st1))],
                    loop_delay := min (max_reconnect_delay config) (loop_delay ?st1 * 2)\<rparr>"
  have a: "loop_attempts ?st1 = 0"
  proof (cases "established (outcome e0)")
    case True
    then show ?thesis by (rule attempt_connection_established(1))
  next
    case False
    then have "outcome e0 = ConnectFailed" by (cases "outcome e0") simp_all
    with False assms(2) show ?thesis by (simp add: attempt_connection_failed)
  qed
  have n: "connects ?st1 = connects st + 1" by (rule attempt_connection_common(2))
  show ?thesis
  proof (cases "0 < max_reconnect_attempts config")
    case True
    then have lt: "loop_attempts ?st1 < max_reconnect_attempts config" by (simp add: a)
    have step: "connection_loop_from config (e0 # es) st = connection_loop_from config es ?st2" for es
      by (rule loop_step_reconnect [OF assms(1) lt])
    have v: "loop_attempts ?st2 = 1" "connects ?st2 = connects st + 1" by (simp_all add: a n)
    have p2: "loop_attempts ?st2 \<le> max_reconnect_attempts config" using True by (simp add: v)
    have p3: "length fs = Suc (nat (max_reconnect_attempts config - loop_attempts ?st2))"
      using assms(4) True by (simp add: v)
    from failing_run_exhausts [OF assms(3) p2 p3, of rest] show ?thesis
      unfolding step v by simp
  next
    case False
    then have nlt: "\<not> loop_attempts ?st1 < max_reconnect_attempts config" by (simp add: a)
    have step: "connection_loop_from config (e0 # es) st = (Exited, ?st1\<lparr>state := ''error''\<rparr>)" for es
      by (rule loop_step_exhausted [OF assms(1) nlt])
    from False assms(4) have "fs = []" by simp
    then show ?thesis unfolding step by (simp add: n)
  qed
qed

text \<open>
  C5 as stated counts \<open>max_reconnect_attempts\<close> consecutive connect failures. With
  \<open>max_reconnect_attempts = 1\<close>, after one failed connect from a cold start the loop
  has not exited, the state is \<open>disconnected\<close>, and with a second failing iteration
  available it calls connect a second time.
\<close>

theorem reconnect_attempts_counterexample:
  "max_reconnect_attempts one_retry = 1
   \<and> fst (connection_loop one_retry [failing_env]) = Pending
   \<and> state (snd (connection_loop one_retry [failing_env])) = ''disconnected''
   \<and> connects (snd (connection_loop one_retry [failing_env, failing_env])) = 2"
  by (simp add: loop_eval one_retry_def example_connection_def)

theorem reconnect_attempts_exhausted_witness:
  "undisturbed failing_env
   \<and> loop_attempts (loop_start one_retry) = 0
   \<and> failing failing_env
   \<and> length [failing_env] = nat (max_reconnect_attempts one_retry)
   \<and> connection_loop one_retry [failing_env, failing_env, failing_env]
       = connection_loop one_retry [failing_env, failing_env]
   \<and> fst (connection_loop one_retry [failing_env, failing_env]) = Exited
   \<and> state (snd (connection_loop one_retry [failing_env, failing_env])) = ''error''
   \<and> connects (snd (connection_loop one_retry [failing_env, failing_env])) = 2"
proof -
  have u: "undisturbed failing_env" using failing_env_failing by (simp add: failing_def)
  have z: "loop_attempts (loop_start one_retry) = 0" by (simp add: loop_start_def)
  have z': "established (outcome failing_env) \<or> loop_attempts (loop_start one_retry) = 0"
    using z by simp
  have f: "\<forall>e \<in> set [failing_env]. failing e" by (simp add: failing_env_failing)
  have l: "length [failing_env] = nat (max_reconnect_attempts one_retry)"
    by (simp add: one_retry_def example_connection_def)
  have c: "connects (loop_start one_retry) = 0" by (simp add: loop_start_def)
  show ?thesis
    using u z failing_env_failing l
      reconnect_attempts_exhausted [OF u z' f l, of "[failing_env]"]
    unfolding connection_loop_def by (simp add: c)
qed

end
